theory Spec2Isabelle
  imports Main
begin

section \<open>Errors, collaborator calls and the world\<close>

text \<open>
  Go error values. An error made by a collaborator (storage backend, command runner, GPG,
  the operating system, the archiver) is opaque to the dumpster package and is kept apart
  from the errors the package creates itself with \<^verbatim>\<open>errors.New\<close> (a fresh value at every
  call, so never equal to a collaborator's error) and wraps with
  \<^verbatim>\<open>fmt.Errorf("...: %w", err)\<close>.
\<close>

datatype error =
    External string
  | New string
  | Errorf string error

text \<open>The \<^verbatim>\<open>Error()\<close> message of an error value.\<close>

fun Error :: "error \<Rightarrow> string" where
  "Error (External m) = m"
| "Error (New m) = m"
| "Error (Errorf p e) = p @ '': '' @ Error e"

text \<open>
  A command built by \<^verbatim>\<open>exec.Command(ctx, name, args...).WithEnv(..).WithDir(..)\<close>, optionally
  followed by \<^verbatim>\<open>WithStderr(os.Stderr)\<close>.
\<close>

record Cmd =
  cmdName :: string
  cmdArgs :: "string list"
  cmdEnv :: "string list"
  cmdDir :: string
  cmdStderr :: bool

text \<open>
  Every call the package makes on a collaborator. The world is the history of these
  calls, oldest first; a collaborator's answer is a function of the history before the
  call and of the call's arguments, which covers every deterministic collaborator.
\<close>

datatype call =
    OsRemoveAll string
  | OsMkdirAll string
  | ExecLookPath string
  | ExecOutput Cmd
  | ExecCombinedOutput Cmd
  | FileArchiveDir string
  | GpgFetchKey string string
  | GpgEncryptFile string
  | StoreName
  | StoreUpload string
  | StoreList
  | StoreTrimPrefix "string list"
  | StoreDelete string

type_synonym world = "call list"

text \<open>
  \<^verbatim>\<open>context.Context\<close>: the only part that matters is whether the cancellation signal is
  set at a given moment (\<^verbatim>\<open>ctx.Err() != nil\<close>). The package never reads it; it hands the
  context to the collaborators.
\<close>

type_synonym Context = "world \<Rightarrow> bool"

section \<open>Collaborators\<close>

text \<open>\<^verbatim>\<open>storage.StorageIface\<close> (without \<^verbatim>\<open>Init\<close>, which the dumpster never calls).\<close>

record StorageIface =
  Upload :: "Context \<Rightarrow> world \<Rightarrow> string \<Rightarrow> string + string"
  List :: "Context \<Rightarrow> world \<Rightarrow> string + string list"
  Delete :: "Context \<Rightarrow> world \<Rightarrow> string \<Rightarrow> string option"
  TrimPrefix :: "world \<Rightarrow> string list \<Rightarrow> string list"
  Name :: "world \<Rightarrow> string"

text \<open>
  \<^verbatim>\<open>exec.ExecIface\<close> with the two ways a built command is run. \<^verbatim>\<open>Output\<close> and
  \<^verbatim>\<open>CombinedOutput\<close> return the captured bytes and an error or nil.
\<close>

record ExecIface =
  LookPath :: "world \<Rightarrow> string \<Rightarrow> string + string"
  Output :: "Context \<Rightarrow> world \<Rightarrow> Cmd \<Rightarrow> string \<times> string option"
  CombinedOutput :: "Context \<Rightarrow> world \<Rightarrow> Cmd \<Rightarrow> string \<times> string option"

text \<open>\<^verbatim>\<open>gpg.GPGIface\<close>.\<close>

record GPGIface =
  FetchGPGPubKeyFromKeyServer :: "world \<Rightarrow> string \<Rightarrow> string \<Rightarrow> string + string"
  EncryptFile :: "world \<Rightarrow> string \<Rightarrow> string + string"

text \<open>
  Functions of imported packages that are not part of this repository; each is a
  parameter of the model. \<^verbatim>\<open>strings.TrimSpace\<close>, \<^verbatim>\<open>filepath.Join\<close> and
  \<^verbatim>\<open>datetime.SortDateTimes\<close> are pure; \<^verbatim>\<open>os.RemoveAll\<close>, \<^verbatim>\<open>os.MkdirAll\<close> and
  \<^verbatim>\<open>file.ArchiveDir\<close> act on the file system.
\<close>

record Packages =
  TrimSpace :: "string \<Rightarrow> string"
  Join :: "string \<Rightarrow> string \<Rightarrow> string"
  SortDateTimes :: "string list \<Rightarrow> string list"
  RemoveAll :: "world \<Rightarrow> string \<Rightarrow> string option"
  MkdirAll :: "world \<Rightarrow> string \<Rightarrow> string option"
  ArchiveDir :: "world \<Rightarrow> string \<Rightarrow> string + string"

section \<open>Configuration and the dumpster\<close>

text \<open>The fields of \<^verbatim>\<open>config.Config\<close> that the dumpster reads.\<close>

record PostgresConfig =
  User :: string
  Password :: string
  Host :: string
  Port :: string

record BackupConfig =
  Encrypt :: bool
  RetentionCount :: int

record GPGConfig =
  KeyID :: string
  KeyServer :: string

record Config =
  Postgres :: PostgresConfig
  Backup :: BackupConfig
  GPG :: GPGConfig

record Dumpster =
  store :: StorageIface
  cfg :: Config
  exec :: ExecIface
  backupLocation :: string
  gpg :: GPGIface

definition getEnvVars :: "Dumpster \<Rightarrow> string list" where
  "getEnvVars d =
     [''PGUSER='' @ User (Postgres (cfg d)),
      ''PGPASSWORD='' @ Password (Postgres (cfg d)),
      ''PGHOST='' @ Host (Postgres (cfg d)),
      ''PGPORT='' @ Port (Postgres (cfg d))]"

section \<open>Preflight\<close>

text \<open>The loop over the required binaries in \<^verbatim>\<open>runPreChecks\<close>.\<close>

fun lookBinaries :: "Dumpster \<Rightarrow> string list \<Rightarrow> world \<Rightarrow> error option \<times> world" where
  "lookBinaries d [] w = (None, w)"
| "lookBinaries d (bin # bins) w =
     (case LookPath (exec d) w bin of
        Inl err \<Rightarrow> (Some (Errorf (bin @ '' not found in PATH'') (External err)), w @ [ExecLookPath bin])
      | Inr _ \<Rightarrow> lookBinaries d bins (w @ [ExecLookPath bin]))"

definition runPreChecks :: "Packages \<Rightarrow> Dumpster \<Rightarrow> world \<Rightarrow> error option \<times> world" where
  "runPreChecks pk d w =
     (case RemoveAll pk w (backupLocation d) of
        Some err \<Rightarrow> (Some (External err), w @ [OsRemoveAll (backupLocation d)])
      | None \<Rightarrow>
          (case MkdirAll pk (w @ [OsRemoveAll (backupLocation d)]) (backupLocation d) of
             Some err \<Rightarrow>
               (Some (External err), w @ [OsRemoveAll (backupLocation d), OsMkdirAll (backupLocation d)])
           | None \<Rightarrow>
               lookBinaries d [''psql'', ''pg_dump'']
                 (w @ [OsRemoveAll (backupLocation d), OsMkdirAll (backupLocation d)])))"

section \<open>Export\<close>

text \<open>
  The counters are Go \<^verbatim>\<open>int\<close>s that start at 0 and are incremented once per line of the
  query output at most, so they stay far below the point where a 64-bit integer wraps; they
  are integers here. Calls of \<^verbatim>\<open>slog\<close> only write the log and are left out.
\<close>

record exportResponse =
  totalDatabases :: int
  exportedDatabases :: int
  exportLocation :: string

text \<open>\<^verbatim>\<open>strings.Split(s, "\n")\<close>: the pieces between line feeds, one more than there are line feeds.\<close>

fun Split :: "string \<Rightarrow> string list" where
  "Split [] = [[]]"
| "Split (c # cs) =
     (if c = CHR 0x0A then [] # Split cs
      else (c # hd (Split cs)) # tl (Split cs))"

text \<open>
  The first loop of \<^verbatim>\<open>export\<close>: trim each line, skip the empty ones, append the others
  to \<^verbatim>\<open>databases\<close> and count them in \<^verbatim>\<open>totalDatabases\<close>.
\<close>

fun collect :: "Packages \<Rightarrow> string list \<Rightarrow> string list \<Rightarrow> int \<Rightarrow> string list \<times> int" where
  "collect pk [] databases tot = (databases, tot)"
| "collect pk (line # lines) databases tot =
     (if TrimSpace pk line = [] then collect pk lines databases tot
      else collect pk lines (databases @ [TrimSpace pk line]) (tot + 1))"

definition psqlCmd :: "Dumpster \<Rightarrow> Cmd" where
  "psqlCmd d =
     \<lparr>cmdName = ''psql'',
      cmdArgs = [''-At'', ''-c'',
        ''SELECT datname FROM pg_database WHERE datistemplate = false AND datname NOT IN ('' @
        [CHR 0x27] @ ''postgres'' @ [CHR 0x27] @ '','' @ [CHR 0x27] @ ''defaultdb'' @ [CHR 0x27] @ '');''],
      cmdEnv = getEnvVars d, cmdDir = backupLocation d, cmdStderr = True\<rparr>"

definition pgDumpCmd :: "Packages \<Rightarrow> Dumpster \<Rightarrow> string \<Rightarrow> Cmd" where
  "pgDumpCmd pk d db =
     \<lparr>cmdName = ''pg_dump'',
      cmdArgs = [''--no-owner'', ''--no-acl'', ''--dbname='' @ db,
                 ''--file='' @ Join pk (backupLocation d) (db @ ''.sql'')],
      cmdEnv = getEnvVars d, cmdDir = backupLocation d, cmdStderr = False\<rparr>"

text \<open>
  The second loop of \<^verbatim>\<open>export\<close>: one \<^verbatim>\<open>pg_dump\<close> per database; a failing dump is logged
  and skipped, a successful one counted in \<^verbatim>\<open>exportedDatabases\<close>.
\<close>

fun dumpEach :: "Packages \<Rightarrow> Dumpster \<Rightarrow> Context \<Rightarrow> string list \<Rightarrow> int \<Rightarrow> world \<Rightarrow> int \<times> world" where
  "dumpEach pk d ctx [] exported w = (exported, w)"
| "dumpEach pk d ctx (db # dbs) exported w =
     (case CombinedOutput (exec d) ctx w (pgDumpCmd pk d db) of
        (out, Some cErr) \<Rightarrow> dumpEach pk d ctx dbs exported (w @ [ExecCombinedOutput (pgDumpCmd pk d db)])
      | (out, None) \<Rightarrow> dumpEach pk d ctx dbs (exported + 1) (w @ [ExecCombinedOutput (pgDumpCmd pk d db)]))"

definition export :: "Packages \<Rightarrow> Dumpster \<Rightarrow> Context \<Rightarrow> world \<Rightarrow> (error + exportResponse) \<times> world" where
  "export pk d ctx w =
     (case Output (exec d) ctx w (psqlCmd d) of
        (output, Some err) \<Rightarrow>
          (Inl (Errorf ''error getting list of databases'' (External err)), w @ [ExecOutput (psqlCmd d)])
      | (output, None) \<Rightarrow>
          (case collect pk (Split output) [] 0 of
             (databases, tot) \<Rightarrow>
               (case dumpEach pk d ctx databases 0 (w @ [ExecOutput (psqlCmd d)]) of
                  (exported, w') \<Rightarrow>
                    (Inr \<lparr>totalDatabases = tot, exportedDatabases = exported,
                          exportLocation = backupLocation d\<rparr>, w'))))"

section \<open>Creating a dump\<close>

record DumpResponse =
  TotalDatabases :: int
  ExportedDatabases :: int
  DumpLocation :: string
  ArchiveLocation :: string
  StorageKey :: string

text \<open>
  The end of \<^verbatim>\<open>CreateDump\<close>: log the upload (which asks the store for its name), upload
  the file, and fill in the archive location and the storage key.
\<close>

definition uploadStage ::
  "Dumpster \<Rightarrow> Context \<Rightarrow> DumpResponse \<Rightarrow> string \<Rightarrow> string \<Rightarrow> world \<Rightarrow> (error + DumpResponse) \<times> world" where
  "uploadStage d ctx dumpResp archivePath uploadFilePath w =
     (case Upload (store d) ctx (w @ [StoreName]) uploadFilePath of
        Inl err \<Rightarrow> (Inl (External err), w @ [StoreName, StoreUpload uploadFilePath])
      | Inr key \<Rightarrow>
          (Inr (dumpResp\<lparr>ArchiveLocation := archivePath, StorageKey := key\<rparr>),
           w @ [StoreName, StoreUpload uploadFilePath]))"

text \<open>
  \<^verbatim>\<open>CreateDump\<close> from the archive on: \<^verbatim>\<open>uploadFilePath\<close> starts as the archive path and,
  when encryption is configured, becomes the encrypted file's path once the key has been
  fetched and the archive encrypted.
\<close>

definition archiveStage ::
  "Packages \<Rightarrow> Dumpster \<Rightarrow> Context \<Rightarrow> exportResponse \<Rightarrow> DumpResponse \<Rightarrow> world \<Rightarrow>
     (error + DumpResponse) \<times> world" where
  "archiveStage pk d ctx resp dumpResp w =
     (case ArchiveDir pk w (exportLocation resp) of
        Inl err \<Rightarrow> (Inl (External err), w @ [FileArchiveDir (exportLocation resp)])
      | Inr archivePath \<Rightarrow>
          (if Encrypt (Backup (cfg d)) then
             (case FetchGPGPubKeyFromKeyServer (gpg d) (w @ [FileArchiveDir (exportLocation resp)])
                     (KeyID (GPG (cfg d))) (KeyServer (GPG (cfg d))) of
                Inl gErr \<Rightarrow>
                  (Inl (External gErr),
                   w @ [FileArchiveDir (exportLocation resp),
                        GpgFetchKey (KeyID (GPG (cfg d))) (KeyServer (GPG (cfg d)))])
              | Inr _ \<Rightarrow>
                  (case EncryptFile (gpg d)
                          (w @ [FileArchiveDir (exportLocation resp),
                                GpgFetchKey (KeyID (GPG (cfg d))) (KeyServer (GPG (cfg d)))])
                          archivePath of
                     Inl gErr \<Rightarrow>
                       (Inl (External gErr),
                        w @ [FileArchiveDir (exportLocation resp),
                             GpgFetchKey (KeyID (GPG (cfg d))) (KeyServer (GPG (cfg d))),
                             GpgEncryptFile archivePath])
                   | Inr encryptedFilePath \<Rightarrow>
                       uploadStage d ctx dumpResp archivePath encryptedFilePath
                         (w @ [FileArchiveDir (exportLocation resp),
                               GpgFetchKey (KeyID (GPG (cfg d))) (KeyServer (GPG (cfg d))),
                               GpgEncryptFile archivePath])))
           else uploadStage d ctx dumpResp archivePath archivePath
                  (w @ [FileArchiveDir (exportLocation resp)])))"

definition CreateDump :: "Packages \<Rightarrow> Dumpster \<Rightarrow> Context \<Rightarrow> world \<Rightarrow> (error + DumpResponse) \<times> world" where
  "CreateDump pk d ctx w =
     (case runPreChecks pk d w of
        (Some err, w1) \<Rightarrow> (Inl err, w1)
      | (None, w1) \<Rightarrow>
          (case export pk d ctx w1 of
             (Inl err, w2) \<Rightarrow> (Inl err, w2)
           | (Inr resp, w2) \<Rightarrow>
               (if exportedDatabases resp \<le> 0 then (Inl (New ''no databases were exported''), w2)
                else archiveStage pk d ctx resp
                       \<lparr>TotalDatabases = totalDatabases resp,
                        ExportedDatabases = exportedDatabases resp,
                        DumpLocation = exportLocation resp,
                        ArchiveLocation = [], StorageKey = []\<rparr> w2)))"

section \<open>Listing and purging dumps\<close>

definition ListDumps :: "Packages \<Rightarrow> Dumpster \<Rightarrow> Context \<Rightarrow> world \<Rightarrow> (error + string list) \<times> world" where
  "ListDumps pk d ctx w =
     (case List (store d) ctx w of
        Inl err \<Rightarrow> (Inl (External err), w @ [StoreList])
      | Inr keys \<Rightarrow>
          (if length keys = 0 then (Inr [], w @ [StoreList])
           else (Inr (SortDateTimes pk (TrimPrefix (store d) (w @ [StoreList]) keys)),
                 w @ [StoreList, StoreTrimPrefix keys])))"

text \<open>
  What a function call ends in: a return with its values, or a run-time panic (here only
  \<^verbatim>\<open>slice bounds out of range\<close>), which unwinds through the callers.
\<close>

datatype 'a outcome = Returns 'a | Panics string

text \<open>
  The slice expression \<^verbatim>\<open>s[low:]\<close> with a low bound known only at run time: it panics
  unless \<^verbatim>\<open>0 <= low <= len(s)\<close>.
\<close>

definition sliceFrom :: "'a list \<Rightarrow> int \<Rightarrow> 'a list outcome" where
  "sliceFrom s low =
     (if 0 \<le> low \<and> low \<le> int (length s) then Returns (drop (nat low) s)
      else Panics ''slice bounds out of range'')"

text \<open>The deletion loop of \<^verbatim>\<open>PurgeDumps\<close>: it returns at the first failing \<^verbatim>\<open>Delete\<close>.\<close>

fun deleteEach :: "Dumpster \<Rightarrow> Context \<Rightarrow> string list \<Rightarrow> world \<Rightarrow> error option \<times> world" where
  "deleteEach d ctx [] w = (None, w)"
| "deleteEach d ctx (key # keys) w =
     (case Delete (store d) ctx w key of
        Some sErr \<Rightarrow>
          (Some (Errorf (''error deleting backup '' @ key) (External sErr)), w @ [StoreDelete key])
      | None \<Rightarrow> deleteEach d ctx keys (w @ [StoreDelete key]))"

definition PurgeDumps :: "Packages \<Rightarrow> Dumpster \<Rightarrow> Context \<Rightarrow> world \<Rightarrow> error option outcome \<times> world" where
  "PurgeDumps pk d ctx w =
     (case ListDumps pk d ctx w of
        (Inl err, w1) \<Rightarrow> (Returns (Some err), w1)
      | (Inr keys, w1) \<Rightarrow>
          (if int (length keys) \<le> RetentionCount (Backup (cfg d)) then (Returns None, w1)
           else (case sliceFrom keys (RetentionCount (Backup (cfg d))) of
                   Panics msg \<Rightarrow> (Panics msg, w1)
                 | Returns keysToDelete \<Rightarrow>
                     (case deleteEach d ctx keysToDelete w1 of
                        (res, w2) \<Rightarrow> (Returns res, w2)))))"

section \<open>Dump: create, then purge\<close>

definition Dump :: "Packages \<Rightarrow> Dumpster \<Rightarrow> Context \<Rightarrow> world \<Rightarrow> (error + DumpResponse) outcome \<times> world" where
  "Dump pk d ctx w =
     (case CreateDump pk d ctx w of
        (Inl err, w1) \<Rightarrow> (Returns (Inl err), w1)
      | (Inr resp, w1) \<Rightarrow>
          (case PurgeDumps pk d ctx w1 of
             (Panics msg, w2) \<Rightarrow> (Panics msg, w2)
           | (Returns (Some pErr), w2) \<Rightarrow> (Returns (Inl pErr), w2)
           | (Returns None, w2) \<Rightarrow> (Returns (Inr resp), w2)))"

section \<open>Reading a history\<close>

text \<open>The paths passed to \<^verbatim>\<open>Upload\<close>, the directories archived and the keys passed to
  \<^verbatim>\<open>Delete\<close> in a history, in call order.\<close>

fun uploads :: "call list \<Rightarrow> string list" where
  "uploads [] = []"
| "uploads (StoreUpload p # cs) = p # uploads cs"
| "uploads (c # cs) = uploads cs"

fun archives :: "call list \<Rightarrow> string list" where
  "archives [] = []"
| "archives (FileArchiveDir p # cs) = p # archives cs"
| "archives (c # cs) = archives cs"

fun deletes :: "call list \<Rightarrow> string list" where
  "deletes [] = []"
| "deletes (StoreDelete k # cs) = k # deletes cs"
| "deletes (c # cs) = deletes cs"

text \<open>The \<^verbatim>\<open>pg_dump\<close> runs of a list of databases, as calls.\<close>

definition pgDumps :: "Packages \<Rightarrow> Dumpster \<Rightarrow> string list \<Rightarrow> call list" where
  "pgDumps pk d dbs = map (\<lambda>db. ExecCombinedOutput (pgDumpCmd pk d db)) dbs"

text \<open>
  The enumeration as the specification words it: the non-empty whitespace-trimmed lines of
  the query output, in the order of the output.
\<close>

definition trimmedLines :: "Packages \<Rightarrow> string \<Rightarrow> string list" where
  "trimmedLines pk output = filter (\<lambda>l. l \<noteq> []) (map (TrimSpace pk) (Split output))"

section \<open>Test doubles\<close>

text \<open>
  Collaborators with fixed answers, after the mocks of the package's tests; the concrete
  runs below use them.
\<close>

definition asciiSpace :: "char \<Rightarrow> bool" where
  "asciiSpace c = (c \<in> set [CHR 0x09, CHR 0x0A, CHR 0x0B, CHR 0x0C, CHR 0x0D, CHR 0x20])"

definition trimASCII :: "string \<Rightarrow> string" where
  "trimASCII s = rev (dropWhile asciiSpace (rev (dropWhile asciiSpace s)))"

fun strLess :: "string \<Rightarrow> string \<Rightarrow> bool" where
  "strLess [] [] = False"
| "strLess [] (y # ys) = True"
| "strLess (x # xs) [] = False"
| "strLess (x # xs) (y # ys) = ((of_char x :: nat) < of_char y \<or> (x = y \<and> strLess xs ys))"

fun insertDesc :: "string \<Rightarrow> string list \<Rightarrow> string list" where
  "insertDesc k [] = [k]"
| "insertDesc k (x # xs) = (if strLess k x then x # insertDesc k xs else k # x # xs)"

definition sortDesc :: "string list \<Rightarrow> string list" where
  "sortDesc ks = foldr insertDesc ks []"

definition mockPackages :: Packages where
  "mockPackages =
     \<lparr>TrimSpace = trimASCII,
      Join = (\<lambda>dir f. dir @ ''/'' @ f),
      SortDateTimes = sortDesc,
      RemoveAll = (\<lambda>w p. None),
      MkdirAll = (\<lambda>w p. None),
      ArchiveDir = (\<lambda>w p. Inr (p @ ''.tar.gz''))\<rparr>"

text \<open>
  A command runner whose \<^verbatim>\<open>psql\<close> prints \<open>out\<close> and whose \<^verbatim>\<open>pg_dump\<close> fails for the
  databases in \<open>failing\<close> and, as a command started with a cancelled context does, once
  the context is cancelled.
\<close>

definition mockExec :: "string \<Rightarrow> string list \<Rightarrow> ExecIface" where
  "mockExec out failing =
     \<lparr>LookPath = (\<lambda>w bin. Inr (''/usr/bin/'' @ bin)),
      Output = (\<lambda>ctx w c. (out, None)),
      CombinedOutput = (\<lambda>ctx w c.
        if ctx w then ([], Some ''context canceled'')
        else if \<exists>db \<in> set failing. (''--dbname='' @ db) \<in> set (cmdArgs c)
             then (''permission denied'', Some ''access denied'')
        else ([], None))\<rparr>"

definition mockStore :: "string list \<Rightarrow> string list \<Rightarrow> StorageIface" where
  "mockStore keys undeletable =
     \<lparr>Upload = (\<lambda>ctx w p. Inr ''20240104000000''),
      List = (\<lambda>ctx w. Inr keys),
      Delete = (\<lambda>ctx w k. if k \<in> set undeletable then Some ''delete failed'' else None),
      TrimPrefix = (\<lambda>w ks. ks),
      Name = (\<lambda>w. ''test-storage'')\<rparr>"

definition mockGPG :: "bool \<Rightarrow> bool \<Rightarrow> GPGIface" where
  "mockGPG fetchOK encryptOK =
     \<lparr>FetchGPGPubKeyFromKeyServer =
        (\<lambda>w k s. if fetchOK then Inr ''pubkey'' else Inl ''key server unreachable''),
      EncryptFile = (\<lambda>w p. if encryptOK then Inr (p @ ''.gpg'') else Inl ''encryption failed'')\<rparr>"

definition mockConfig :: "bool \<Rightarrow> int \<Rightarrow> Config" where
  "mockConfig enc r =
     \<lparr>Postgres = \<lparr>User = ''testuser'', Password = ''testpass'', Host = ''localhost'', Port = ''5432''\<rparr>,
      Backup = \<lparr>Encrypt = enc, RetentionCount = r\<rparr>,
      GPG = \<lparr>KeyID = ''0xABCD'', KeyServer = ''keys.example.org''\<rparr>\<rparr>"

definition mockDumpster :: "StorageIface \<Rightarrow> Config \<Rightarrow> ExecIface \<Rightarrow> GPGIface \<Rightarrow> Dumpster" where
  "mockDumpster st c ex g =
     \<lparr>store = st, cfg = c, exec = ex, backupLocation = ''/tmp/export'', gpg = g\<rparr>"

text \<open>A context that is never cancelled, and one cancelled once \<open>n\<close> calls have been made.\<close>

definition background :: Context where
  "background = (\<lambda>w. False)"

definition cancelledAfter :: "nat \<Rightarrow> Context" where
  "cancelledAfter n = (\<lambda>w. n \<le> length w)"

text \<open>
  The runs used below. The storage of \<open>purgeRun\<close> lists three backups, out of order;
  \<open>r\<close> is the retention count and \<open>undeletable\<close> the keys whose deletion fails.
\<close>

definition storedKeys :: "string list" where
  "storedKeys = [''20240101000000'', ''20240103000000'', ''20240102000000'']"

definition purgeRun :: "int \<Rightarrow> string list \<Rightarrow> Dumpster" where
  "purgeRun r undeletable =
     mockDumpster (mockStore storedKeys undeletable) (mockConfig False r)
       (mockExec ''db1\<newline>'' []) (mockGPG True True)"

text \<open>One database whose dump fails.\<close>

definition failedDumpRun :: Dumpster where
  "failedDumpRun =
     mockDumpster (mockStore storedKeys []) (mockConfig False 2)
       (mockExec ''db1\<newline>'' [''db1'']) (mockGPG True True)"

text \<open>Two databases between blank and padded lines; the dump of the second fails.\<close>

definition partialRun :: Dumpster where
  "partialRun =
     mockDumpster (mockStore storedKeys []) (mockConfig False 2)
       (mockExec ''db1\<newline> db2 \<newline>\<newline>'' [''db2'']) (mockGPG True True)"

text \<open>The server prints the same name twice.\<close>

definition duplicateRun :: Dumpster where
  "duplicateRun =
     mockDumpster (mockStore storedKeys []) (mockConfig False 2)
       (mockExec ''db1\<newline>db1\<newline>'' []) (mockGPG True True)"

text \<open>Two databases, both dumps succeed unless the context is cancelled.\<close>

definition twoDatabaseRun :: Dumpster where
  "twoDatabaseRun =
     mockDumpster (mockStore storedKeys []) (mockConfig False 2)
       (mockExec ''db1\<newline>db2\<newline>'' []) (mockGPG True True)"

text \<open>The same with a command runner that does not look at the context.\<close>

definition deafRun :: Dumpster where
  "deafRun =
     twoDatabaseRun\<lparr>exec := (exec twoDatabaseRun)\<lparr>CombinedOutput := (\<lambda>ctx w c. ([], None))\<rparr>\<rparr>"

text \<open>The same with a server that cannot be reached: \<^verbatim>\<open>psql\<close> fails.\<close>

definition unreachableRun :: Dumpster where
  "unreachableRun =
     twoDatabaseRun\<lparr>exec := (exec twoDatabaseRun)\<lparr>Output := (\<lambda>ctx w c. ([], Some ''connection refused''))\<rparr>\<rparr>"

text \<open>Encryption configured; the key fetch and the encryption succeed or fail as told.\<close>

definition encryptedRun :: "bool \<Rightarrow> bool \<Rightarrow> Dumpster" where
  "encryptedRun fetchOK encryptOK =
     mockDumpster (mockStore storedKeys []) (mockConfig True 2)
       (mockExec ''db1\<newline>'' []) (mockGPG fetchOK encryptOK)"



section \<open>Properties\<close>

subsection \<open>Histories\<close>

lemma uploads_append: "uploads (xs @ ys) = uploads xs @ uploads ys"
  by (induction xs rule: uploads.induct) simp_all

lemma archives_append: "archives (xs @ ys) = archives xs @ archives ys"
  by (induction xs rule: archives.induct) simp_all

lemma deletes_append: "deletes (xs @ ys) = deletes xs @ deletes ys"
  by (induction xs rule: deletes.induct) simp_all

lemma deletes_map_StoreDelete: "deletes (map StoreDelete ks) = ks"
  by (induction ks) simp_all

lemma uploads_pgDumps: "uploads (pgDumps pk d dbs) = []"
  by (induction dbs) (simp_all add: pgDumps_def)

lemma archives_pgDumps: "archives (pgDumps pk d dbs) = []"
  by (induction dbs) (simp_all add: pgDumps_def)

subsection \<open>Preflight\<close>

lemma lookBinaries_uploads: "uploads (snd (lookBinaries d bins w)) = uploads w"
  by (induction bins arbitrary: w) (simp_all add: uploads_append split: sum.splits)

lemma lookBinaries_archives: "archives (snd (lookBinaries d bins w)) = archives w"
  by (induction bins arbitrary: w) (simp_all add: archives_append split: sum.splits)

lemma lookBinaries_error: "fst (lookBinaries d bins w) = Some e \<Longrightarrow> \<exists>p m. e = Errorf p (External m)"
  by (induction bins arbitrary: w) (auto split: sum.splits)

lemma runPreChecks_uploads: "uploads (snd (runPreChecks pk d w)) = uploads w"
  by (simp add: runPreChecks_def lookBinaries_uploads uploads_append del: lookBinaries.simps
        split: option.splits)

lemma runPreChecks_archives: "archives (snd (runPreChecks pk d w)) = archives w"
  by (simp add: runPreChecks_def lookBinaries_archives archives_append del: lookBinaries.simps
        split: option.splits)

lemma runPreChecks_error: "fst (runPreChecks pk d w) = Some e \<Longrightarrow> e \<noteq> New m"
  by (auto simp: runPreChecks_def simp del: lookBinaries.simps split: option.splits
        dest: lookBinaries_error)

subsection \<open>Export\<close>

lemma collect_acc:
  "collect pk ls dbs tot =
     (dbs @ filter (\<lambda>l. l \<noteq> []) (map (TrimSpace pk) ls),
      tot + int (length (filter (\<lambda>l. l \<noteq> []) (map (TrimSpace pk) ls))))"
  by (induction ls arbitrary: dbs tot) simp_all

lemma collect_trimmedLines:
  "collect pk (Split output) [] 0 = (trimmedLines pk output, int (length (trimmedLines pk output)))"
  by (simp add: collect_acc trimmedLines_def)

lemma dumpEach_world: "snd (dumpEach pk d ctx dbs e w) = w @ pgDumps pk d dbs"
  by (induction dbs arbitrary: e w) (simp_all add: pgDumps_def split: prod.splits option.splits)

lemma dumpEach_bounds:
  "e \<le> fst (dumpEach pk d ctx dbs e w) \<and> fst (dumpEach pk d ctx dbs e w) \<le> e + int (length dbs)"
proof (induction dbs arbitrary: e w)
  case Nil
  show ?case by simp
next
  case (Cons db dbs)
  let ?w = "w @ [ExecCombinedOutput (pgDumpCmd pk d db)]"
  obtain out r where run: "CombinedOutput (exec d) ctx w (pgDumpCmd pk d db) = (out, r)"
    by (cases "CombinedOutput (exec d) ctx w (pgDumpCmd pk d db)")
  show ?case
  proof (cases r)
    case None
    with run Cons.IH [of "e + 1" ?w] show ?thesis by simp
  next
    case (Some cErr)
    with run Cons.IH [of e ?w] show ?thesis by simp
  qed
qed

lemma export_enumerated:
  assumes "Output (exec d) ctx w (psqlCmd d) = (output, None)"
  shows "export pk d ctx w =
           (Inr \<lparr>totalDatabases = int (length (trimmedLines pk output)),
                 exportedDatabases =
                   fst (dumpEach pk d ctx (trimmedLines pk output) 0 (w @ [ExecOutput (psqlCmd d)])),
                 exportLocation = backupLocation d\<rparr>,
            w @ ExecOutput (psqlCmd d) # pgDumps pk d (trimmedLines pk output))"
proof -
  obtain e w' where run: "dumpEach pk d ctx (trimmedLines pk output) 0 (w @ [ExecOutput (psqlCmd d)]) = (e, w')"
    by (cases "dumpEach pk d ctx (trimmedLines pk output) 0 (w @ [ExecOutput (psqlCmd d)])")
  have "w' = (w @ [ExecOutput (psqlCmd d)]) @ pgDumps pk d (trimmedLines pk output)"
    using dumpEach_world [of pk d ctx "trimmedLines pk output" 0 "w @ [ExecOutput (psqlCmd d)]"] run
    by simp
  with assms run show ?thesis
    by (simp add: export_def collect_trimmedLines)
qed

lemma export_failed:
  assumes "Output (exec d) ctx w (psqlCmd d) = (output, Some err)"
  shows "export pk d ctx w =
           (Inl (Errorf ''error getting list of databases'' (External err)), w @ [ExecOutput (psqlCmd d)])"
  using assms by (simp add: export_def)

lemma export_bounds:
  assumes "fst (export pk d ctx w) = Inr resp"
  shows "0 \<le> exportedDatabases resp \<and> exportedDatabases resp \<le> totalDatabases resp"
proof -
  obtain outp r where run: "Output (exec d) ctx w (psqlCmd d) = (outp, r)"
    by (cases "Output (exec d) ctx w (psqlCmd d)")
  show ?thesis
  proof (cases r)
    case None
    with run assms export_enumerated [of d ctx w outp pk]
    have "resp = \<lparr>totalDatabases = int (length (trimmedLines pk outp)),
                 exportedDatabases =
                   fst (dumpEach pk d ctx (trimmedLines pk outp) 0 (w @ [ExecOutput (psqlCmd d)])),
                 exportLocation = backupLocation d\<rparr>"
      by simp
    then show ?thesis
      using dumpEach_bounds [of 0 pk d ctx "trimmedLines pk outp" "w @ [ExecOutput (psqlCmd d)]"]
      by simp
  next
    case (Some err)
    with run assms export_failed [of d ctx w outp err pk] show ?thesis by simp
  qed
qed

lemma export_error:
  assumes "fst (export pk d ctx w) = Inl e"
  shows "\<exists>err. snd (Output (exec d) ctx w (psqlCmd d)) = Some err \<and>
               e = Errorf ''error getting list of databases'' (External err)"
proof -
  obtain outp r where run: "Output (exec d) ctx w (psqlCmd d) = (outp, r)"
    by (cases "Output (exec d) ctx w (psqlCmd d)")
  show ?thesis
  proof (cases r)
    case None
    with run assms export_enumerated [of d ctx w outp pk] show ?thesis by simp
  next
    case (Some err)
    with run assms export_failed [of d ctx w outp err pk] show ?thesis by simp
  qed
qed

lemma export_uploads: "uploads (snd (export pk d ctx w)) = uploads w"
proof -
  obtain outp r where run: "Output (exec d) ctx w (psqlCmd d) = (outp, r)"
    by (cases "Output (exec d) ctx w (psqlCmd d)")
  show ?thesis
  proof (cases r)
    case None
    with run export_enumerated [of d ctx w outp pk] show ?thesis
      using uploads_append [of w "ExecOutput (psqlCmd d) # pgDumps pk d (trimmedLines pk outp)"]
      by (simp add: uploads_pgDumps)
  next
    case (Some err)
    with run export_failed [of d ctx w outp err pk] show ?thesis
      by (simp add: uploads_append)
  qed
qed

lemma export_archives: "archives (snd (export pk d ctx w)) = archives w"
proof -
  obtain outp r where run: "Output (exec d) ctx w (psqlCmd d) = (outp, r)"
    by (cases "Output (exec d) ctx w (psqlCmd d)")
  show ?thesis
  proof (cases r)
    case None
    with run export_enumerated [of d ctx w outp pk] show ?thesis
      using archives_append [of w "ExecOutput (psqlCmd d) # pgDumps pk d (trimmedLines pk outp)"]
      by (simp add: archives_pgDumps)
  next
    case (Some err)
    with run export_failed [of d ctx w outp err pk] show ?thesis
      by (simp add: archives_append)
  qed
qed

subsection \<open>Archive, encrypt, upload\<close>

lemma uploadStage_world:
  "snd (uploadStage d ctx dumpResp archivePath p w) = w @ [StoreName, StoreUpload p]"
  by (simp add: uploadStage_def split: sum.splits)

lemma uploadStage_error:
  "fst (uploadStage d ctx dumpResp archivePath p w) = Inl e \<Longrightarrow> \<exists>m. e = External m"
  by (auto simp: uploadStage_def split: sum.splits)

lemma uploadStage_counts:
  "fst (uploadStage d ctx dumpResp archivePath p w) = Inr r \<Longrightarrow>
     TotalDatabases r = TotalDatabases dumpResp \<and> ExportedDatabases r = ExportedDatabases dumpResp"
  by (auto simp: uploadStage_def split: sum.splits)

lemma archiveStage_error:
  "fst (archiveStage pk d ctx resp dumpResp w) = Inl e \<Longrightarrow> \<exists>m. e = External m"
  by (auto simp: archiveStage_def split: sum.splits if_splits dest: uploadStage_error)

lemma archiveStage_counts:
  "fst (archiveStage pk d ctx resp dumpResp w) = Inr r \<Longrightarrow>
     TotalDatabases r = TotalDatabases dumpResp \<and> ExportedDatabases r = ExportedDatabases dumpResp"
  by (auto simp: archiveStage_def split: sum.splits if_splits dest: uploadStage_counts)

subsection \<open>CreateDump by stages\<close>

lemma CreateDump_preflight_failed:
  "runPreChecks pk d w = (Some err, w1) \<Longrightarrow> CreateDump pk d ctx w = (Inl err, w1)"
  by (simp add: CreateDump_def)

lemma CreateDump_export_failed:
  "runPreChecks pk d w = (None, w1) \<Longrightarrow> export pk d ctx w1 = (Inl err, w2) \<Longrightarrow>
     CreateDump pk d ctx w = (Inl err, w2)"
  by (simp add: CreateDump_def)

lemma CreateDump_nothing_exported:
  "runPreChecks pk d w = (None, w1) \<Longrightarrow> export pk d ctx w1 = (Inr resp, w2) \<Longrightarrow>
     exportedDatabases resp \<le> 0 \<Longrightarrow>
     CreateDump pk d ctx w = (Inl (New ''no databases were exported''), w2)"
  by (simp add: CreateDump_def)

lemma CreateDump_exported:
  "runPreChecks pk d w = (None, w1) \<Longrightarrow> export pk d ctx w1 = (Inr resp, w2) \<Longrightarrow>
     0 < exportedDatabases resp \<Longrightarrow>
     CreateDump pk d ctx w =
       archiveStage pk d ctx resp
         \<lparr>TotalDatabases = totalDatabases resp, ExportedDatabases = exportedDatabases resp,
          DumpLocation = exportLocation resp, ArchiveLocation = [], StorageKey = []\<rparr> w2"
  by (simp add: CreateDump_def)

lemma CreateDump_counts:
  assumes "fst (CreateDump pk d ctx w) = Inr dr"
  shows "0 \<le> ExportedDatabases dr \<and> ExportedDatabases dr \<le> TotalDatabases dr"
proof -
  obtain r1 w1 where pre: "runPreChecks pk d w = (r1, w1)"
    by (cases "runPreChecks pk d w")
  obtain r2 w2 where ex: "export pk d ctx w1 = (r2, w2)"
    by (cases "export pk d ctx w1")
  from assms pre have r1: "r1 = None"
    by (cases r1) (simp_all add: CreateDump_preflight_failed)
  from assms pre ex r1 obtain resp where r2: "r2 = Inr resp"
    by (cases r2) (simp_all add: CreateDump_export_failed)
  from assms pre ex r1 r2 have pos: "0 < exportedDatabases resp"
    using CreateDump_nothing_exported [of pk d w w1 ctx resp w2] by (cases "0 < exportedDatabases resp") simp_all
  from ex r2 have b: "0 \<le> exportedDatabases resp \<and> exportedDatabases resp \<le> totalDatabases resp"
    using export_bounds [of pk d ctx w1 resp] by simp
  from assms pre ex r1 r2 pos
  have "TotalDatabases dr = totalDatabases resp \<and> ExportedDatabases dr = exportedDatabases resp"
    using CreateDump_exported [of pk d w w1 ctx resp w2]
      archiveStage_counts [of pk d ctx resp
         "\<lparr>TotalDatabases = totalDatabases resp, ExportedDatabases = exportedDatabases resp,
          DumpLocation = exportLocation resp, ArchiveLocation = [], StorageKey = []\<rparr>" w2 dr]
    by simp
  with b show ?thesis by simp
qed

text \<open>
  Claim C1. \<^verbatim>\<open>CreateDump\<close> returns the error \<^verbatim>\<open>no databases were exported\<close> exactly when the
  preflight succeeds and the export stage completes with \<^verbatim>\<open>exportedDatabases = 0\<close>. In that
  case the run ends with the export stage: nothing is archived and nothing is uploaded. When
  the export stage completes with \<^verbatim>\<open>exportedDatabases > 0\<close> that error is not returned.
\<close>

theorem CreateDump_zero_export:
  "(fst (CreateDump pk d ctx w) = Inl (New ''no databases were exported'')) =
     (\<exists>w1 resp w2. runPreChecks pk d w = (None, w1) \<and> export pk d ctx w1 = (Inr resp, w2) \<and>
        exportedDatabases resp = 0)
   \<and> (fst (CreateDump pk d ctx w) = Inl (New ''no databases were exported'') \<longrightarrow>
        snd (CreateDump pk d ctx w) = snd (export pk d ctx (snd (runPreChecks pk d w))) \<and>
        archives (snd (CreateDump pk d ctx w)) = archives w \<and>
        uploads (snd (CreateDump pk d ctx w)) = uploads w)
   \<and> (runPreChecks pk d w = (None, w1) \<and> export pk d ctx w1 = (Inr resp, w2) \<and>
        0 < exportedDatabases resp \<longrightarrow>
        fst (CreateDump pk d ctx w) \<noteq> Inl (New ''no databases were exported''))"
proof -
  let ?zero = "Inl (New ''no databases were exported'') :: error + DumpResponse"
  have only_if: "\<exists>w1 resp w2. runPreChecks pk d w = (None, w1) \<and> export pk d ctx w1 = (Inr resp, w2) \<and>
        exportedDatabases resp = 0 \<and> snd (CreateDump pk d ctx w) = w2"
    if z: "fst (CreateDump pk d ctx w) = ?zero"
  proof -
    obtain r1 w1 where pre: "runPreChecks pk d w = (r1, w1)"
      by (cases "runPreChecks pk d w")
    obtain r2 w2 where ex: "export pk d ctx w1 = (r2, w2)"
      by (cases "export pk d ctx w1")
    have r1: "r1 = None"
    proof (cases r1)
      case (Some err)
      with pre z have "err = New ''no databases were exported''"
        by (simp add: CreateDump_preflight_failed)
      with pre Some runPreChecks_error [of pk d w err "''no databases were exported''"]
      show ?thesis by simp
    qed simp
    obtain resp where r2: "r2 = Inr resp"
    proof (cases r2)
      case (Inl err)
      with pre ex r1 z have "err = New ''no databases were exported''"
        by (simp add: CreateDump_export_failed)
      with ex Inl export_error [of pk d ctx w1 err] show ?thesis by auto
    next
      case (Inr resp)
      then show ?thesis by (rule that)
    qed
    have b: "0 \<le> exportedDatabases resp"
      using ex r2 export_bounds [of pk d ctx w1 resp] by simp
    have "\<not> 0 < exportedDatabases resp"
    proof
      assume pos: "0 < exportedDatabases resp"
      with pre ex r1 r2 z archiveStage_error [of pk d ctx resp _ w2 "New ''no databases were exported''"]
      show False by (simp add: CreateDump_exported)
    qed
    with b have zero: "exportedDatabases resp = 0" by simp
    with pre ex r1 r2 have "snd (CreateDump pk d ctx w) = w2"
      by (simp add: CreateDump_nothing_exported)
    with pre ex r1 r2 zero show ?thesis by simp
  qed
  have "if": "fst (CreateDump pk d ctx w) = ?zero"
    if "runPreChecks pk d w = (None, w1)" "export pk d ctx w1 = (Inr resp, w2)"
       "exportedDatabases resp = 0" for w1 resp w2
    using that by (simp add: CreateDump_nothing_exported)
  have iff: "(fst (CreateDump pk d ctx w) = ?zero) =
     (\<exists>w1 resp w2. runPreChecks pk d w = (None, w1) \<and> export pk d ctx w1 = (Inr resp, w2) \<and>
        exportedDatabases resp = 0)"
    using only_if "if" by blast
  have untouched: "snd (CreateDump pk d ctx w) = snd (export pk d ctx (snd (runPreChecks pk d w))) \<and>
        archives (snd (CreateDump pk d ctx w)) = archives w \<and>
        uploads (snd (CreateDump pk d ctx w)) = uploads w"
    if z: "fst (CreateDump pk d ctx w) = ?zero"
  proof -
    from only_if [OF z] obtain w1 resp w2 where
      s: "runPreChecks pk d w = (None, w1)" "export pk d ctx w1 = (Inr resp, w2)"
         "snd (CreateDump pk d ctx w) = w2"
      by blast
    have "archives w2 = archives w"
      using s export_archives [of pk d ctx w1] runPreChecks_archives [of pk d w] by simp
    moreover have "uploads w2 = uploads w"
      using s export_uploads [of pk d ctx w1] runPreChecks_uploads [of pk d w] by simp
    ultimately show ?thesis using s by simp
  qed
  have never: "fst (CreateDump pk d ctx w) \<noteq> ?zero"
    if "runPreChecks pk d w = (None, w1)" "export pk d ctx w1 = (Inr resp, w2)"
       "0 < exportedDatabases resp"
  proof
    assume "fst (CreateDump pk d ctx w) = ?zero"
    from only_if [OF this] that show False by auto
  qed
  from iff untouched never show ?thesis by blast
qed

subsection \<open>Listing\<close>





subsection \<open>The deletion loop\<close>

lemma deleteEach_all_deleted:
  assumes "\<forall>i < length ks. Delete (store d) ctx (w @ map StoreDelete (take i ks)) (ks ! i) = None"
  shows "deleteEach d ctx ks w = (None, w @ map StoreDelete ks)"
  using assms
proof (induction ks arbitrary: w)
  case Nil
  show ?case by simp
next
  case (Cons k ks)
  from Cons.prems [rule_format, of 0] have first: "Delete (store d) ctx w k = None"
    by simp
  have "\<forall>i < length ks.
          Delete (store d) ctx ((w @ [StoreDelete k]) @ map StoreDelete (take i ks)) (ks ! i) = None"
  proof (intro allI impI)
    fix i assume "i < length ks"
    with Cons.prems [rule_format, of "Suc i"] show
      "Delete (store d) ctx ((w @ [StoreDelete k]) @ map StoreDelete (take i ks)) (ks ! i) = None"
      by simp
  qed
  from Cons.IH [OF this] first show ?case by simp
qed

lemma deleteEach_first_failure:
  assumes "\<forall>i < length pre. Delete (store d) ctx (w @ map StoreDelete (take i pre)) (pre ! i) = None"
    and "Delete (store d) ctx (w @ map StoreDelete pre) k = Some m"
  shows "deleteEach d ctx (pre @ k # post) w =
           (Some (Errorf (''error deleting backup '' @ k) (External m)),
            w @ map StoreDelete pre @ [StoreDelete k])"
  using assms
proof (induction pre arbitrary: w)
  case Nil
  then show ?case by simp
next
  case (Cons p pre)
  from Cons.prems(1) [rule_format, of 0] have first: "Delete (store d) ctx w p = None"
    by simp
  have rest: "\<forall>i < length pre.
          Delete (store d) ctx ((w @ [StoreDelete p]) @ map StoreDelete (take i pre)) (pre ! i) = None"
  proof (intro allI impI)
    fix i assume "i < length pre"
    with Cons.prems(1) [rule_format, of "Suc i"] show
      "Delete (store d) ctx ((w @ [StoreDelete p]) @ map StoreDelete (take i pre)) (pre ! i) = None"
      by simp
  qed
  from Cons.prems(2) have "Delete (store d) ctx ((w @ [StoreDelete p]) @ map StoreDelete pre) k = Some m"
    by simp
  from Cons.IH [OF rest this] first show ?case by simp
qed

lemma deleteEach_prefix:
  "\<exists>n. snd (deleteEach d ctx ks w) = w @ map StoreDelete (take n ks)"
proof (induction ks arbitrary: w)
  case Nil
  show ?case by simp
next
  case (Cons k ks)
  show ?case
  proof (cases "Delete (store d) ctx w k")
    case (Some sErr)
    then have "snd (deleteEach d ctx (k # ks) w) = w @ map StoreDelete (take 1 (k # ks))"
      by simp
    then show ?thesis by blast
  next
    case None
    from Cons.IH [of "w @ [StoreDelete k]"] obtain n where
      "snd (deleteEach d ctx ks (w @ [StoreDelete k])) =
         (w @ [StoreDelete k]) @ map StoreDelete (take n ks)"
      by blast
    with None have "snd (deleteEach d ctx (k # ks) w) = w @ map StoreDelete (take (Suc n) (k # ks))"
      by simp
    then show ?thesis by blast
  qed
qed

subsection \<open>Purging\<close>

lemma PurgeDumps_list_failed:
  "ListDumps pk d ctx w = (Inl err, w1) \<Longrightarrow> PurgeDumps pk d ctx w = (Returns (Some err), w1)"
  by (simp add: PurgeDumps_def)

lemma PurgeDumps_within_retention:
  "ListDumps pk d ctx w = (Inr keys, w1) \<Longrightarrow> int (length keys) \<le> RetentionCount (Backup (cfg d)) \<Longrightarrow>
     PurgeDumps pk d ctx w = (Returns None, w1)"
  by (simp add: PurgeDumps_def)

lemma PurgeDumps_negative:
  "ListDumps pk d ctx w = (Inr keys, w1) \<Longrightarrow> RetentionCount (Backup (cfg d)) < 0 \<Longrightarrow>
     PurgeDumps pk d ctx w = (Panics ''slice bounds out of range'', w1)"
  by (simp add: PurgeDumps_def sliceFrom_def)

lemma PurgeDumps_surplus:
  "ListDumps pk d ctx w = (Inr keys, w1) \<Longrightarrow> 0 \<le> RetentionCount (Backup (cfg d)) \<Longrightarrow>
     RetentionCount (Backup (cfg d)) < int (length keys) \<Longrightarrow>
     PurgeDumps pk d ctx w =
       (Returns (fst (deleteEach d ctx (drop (nat (RetentionCount (Backup (cfg d)))) keys) w1)),
        snd (deleteEach d ctx (drop (nat (RetentionCount (Backup (cfg d)))) keys) w1))"
  by (simp add: PurgeDumps_def sliceFrom_def split: prod.splits)

text \<open>
  Claim C3. When the surplus, the slice \<^verbatim>\<open>keys[RetentionCount:]\<close> of the listed keys, is
  \<open>pre @ k # post\<close>, the deletions of \<open>pre\<close> succeed one after the
  other and the deletion of \<open>k\<close> fails with \<open>m\<close>, then \<^verbatim>\<open>PurgeDumps\<close> returns the error
  \<^verbatim>\<open>error deleting backup k: m\<close>, and its calls on the store after the listing are the
  deletions of \<open>pre\<close> in order followed by that of \<open>k\<close>: nothing is undone and no key of
  \<open>post\<close> is passed to \<^verbatim>\<open>Delete\<close>.
\<close>

theorem PurgeDumps_first_failure:
  assumes "ListDumps pk d ctx w = (Inr keys, w1)"
    and "sliceFrom keys (RetentionCount (Backup (cfg d))) = Returns (pre @ k # post)"
    and "\<forall>i < length pre. Delete (store d) ctx (w1 @ map StoreDelete (take i pre)) (pre ! i) = None"
    and "Delete (store d) ctx (w1 @ map StoreDelete pre) k = Some m"
  shows "PurgeDumps pk d ctx w =
           (Returns (Some (Errorf (''error deleting backup '' @ k) (External m))),
            w1 @ map StoreDelete pre @ [StoreDelete k])
         \<and> Error (Errorf (''error deleting backup '' @ k) (External m)) =
             ''error deleting backup '' @ k @ '': '' @ m
         \<and> deletes (snd (PurgeDumps pk d ctx w)) = deletes w1 @ pre @ [k]"
proof -
  from assms(2) have nonneg: "0 \<le> RetentionCount (Backup (cfg d))"
    and surplus: "drop (nat (RetentionCount (Backup (cfg d)))) keys = pre @ k # post"
    by (auto simp: sliceFrom_def split: if_splits)
  have "length (drop (nat (RetentionCount (Backup (cfg d)))) keys) > 0"
    using surplus by simp
  then have more: "RetentionCount (Backup (cfg d)) < int (length keys)"
    using nonneg by simp
  have run: "PurgeDumps pk d ctx w =
           (Returns (Some (Errorf (''error deleting backup '' @ k) (External m))),
            w1 @ map StoreDelete pre @ [StoreDelete k])"
    using PurgeDumps_surplus [OF assms(1) nonneg more]
      deleteEach_first_failure [OF assms(3) assms(4), of post]
    by (simp add: surplus)
  then have "deletes (snd (PurgeDumps pk d ctx w)) = deletes w1 @ pre @ [k]"
    by (simp add: deletes_append deletes_map_StoreDelete)
  with run show ?thesis by simp
qed

text \<open>
  Claim C2, amended. For a key sequence of size \<open>N\<close> returned by \<^verbatim>\<open>ListDumps\<close> and a
  retention count \<open>R \<ge> 0\<close>, the keys that \<^verbatim>\<open>PurgeDumps\<close> passes to \<^verbatim>\<open>Delete\<close> are entries from
  index \<open>R\<close> on of the most-recent-first sequence, in order, and never one of the first
  \<open>min N R\<close> entries, which are kept; when no deletion fails it succeeds having deleted all
  \<open>max 0 (N - R)\<close> of them. When \<open>N \<le> R\<close> it succeeds with no deletion.
\<close>

theorem PurgeDumps_deletes_surplus:
  assumes "ListDumps pk d ctx w = (Inr keys, w1)"
    and "0 \<le> RetentionCount (Backup (cfg d))"
  shows "(\<exists>n. deletes (snd (PurgeDumps pk d ctx w)) =
              deletes w1 @ take n (drop (nat (RetentionCount (Backup (cfg d)))) keys))
         \<and> ((\<forall>i < length (drop (nat (RetentionCount (Backup (cfg d)))) keys).
               Delete (store d) ctx
                 (w1 @ map StoreDelete (take i (drop (nat (RetentionCount (Backup (cfg d)))) keys)))
                 (drop (nat (RetentionCount (Backup (cfg d)))) keys ! i) = None) \<longrightarrow>
             PurgeDumps pk d ctx w =
               (Returns None, w1 @ map StoreDelete (drop (nat (RetentionCount (Backup (cfg d)))) keys)) \<and>
             deletes (snd (PurgeDumps pk d ctx w)) =
               deletes w1 @ drop (nat (RetentionCount (Backup (cfg d)))) keys)
         \<and> int (length (drop (nat (RetentionCount (Backup (cfg d)))) keys)) =
             max 0 (int (length keys) - RetentionCount (Backup (cfg d)))
         \<and> int (length (take (nat (RetentionCount (Backup (cfg d)))) keys)) =
             min (int (length keys)) (RetentionCount (Backup (cfg d)))
         \<and> take (nat (RetentionCount (Backup (cfg d)))) keys @
             drop (nat (RetentionCount (Backup (cfg d)))) keys = keys
         \<and> (int (length keys) \<le> RetentionCount (Backup (cfg d)) \<longrightarrow>
              PurgeDumps pk d ctx w = (Returns None, w1))"
proof -
  let ?R = "RetentionCount (Backup (cfg d))"
  let ?surplus = "drop (nat ?R) keys"
  have only_surplus: "\<exists>n. deletes (snd (PurgeDumps pk d ctx w)) = deletes w1 @ take n ?surplus"
  proof (cases "int (length keys) \<le> ?R")
    case True
    with assms(1) have "deletes (snd (PurgeDumps pk d ctx w)) = deletes w1 @ take 0 ?surplus"
      by (simp add: PurgeDumps_within_retention)
    then show ?thesis by blast
  next
    case False
    then have more: "?R < int (length keys)" by simp
    obtain n where "snd (deleteEach d ctx ?surplus w1) = w1 @ map StoreDelete (take n ?surplus)"
      using deleteEach_prefix [of d ctx ?surplus w1] by blast
    with PurgeDumps_surplus [OF assms(1) assms(2) more]
    have "deletes (snd (PurgeDumps pk d ctx w)) = deletes w1 @ take n ?surplus"
      by (simp add: deletes_append deletes_map_StoreDelete)
    then show ?thesis by blast
  qed
  have all_deleted: "PurgeDumps pk d ctx w = (Returns None, w1 @ map StoreDelete ?surplus) \<and>
      deletes (snd (PurgeDumps pk d ctx w)) = deletes w1 @ ?surplus"
    if ok: "\<forall>i < length ?surplus.
           Delete (store d) ctx (w1 @ map StoreDelete (take i ?surplus)) (?surplus ! i) = None"
  proof -
    have run: "PurgeDumps pk d ctx w = (Returns None, w1 @ map StoreDelete ?surplus)"
    proof (cases "int (length keys) \<le> ?R")
      case True
      then have "?surplus = []" by simp
      with True assms(1) show ?thesis by (simp add: PurgeDumps_within_retention)
    next
      case False
      then have "?R < int (length keys)" by simp
      from PurgeDumps_surplus [OF assms(1) assms(2) this] deleteEach_all_deleted [OF ok]
      show ?thesis by simp
    qed
    then have "deletes (snd (PurgeDumps pk d ctx w)) = deletes w1 @ ?surplus"
      by (simp add: deletes_append deletes_map_StoreDelete)
    with run show ?thesis by simp
  qed
  have dropped: "int (length ?surplus) = max 0 (int (length keys) - ?R)"
    using assms(2) by (simp add: max_def)
  have kept: "int (length (take (nat ?R) keys)) = min (int (length keys)) ?R"
    using assms(2) by (auto simp: min_def)
  have none: "int (length keys) \<le> ?R \<longrightarrow> PurgeDumps pk d ctx w = (Returns None, w1)"
    using assms(1) by (simp add: PurgeDumps_within_retention)
  have whole: "take (nat ?R) keys @ ?surplus = keys"
    by simp
  from only_surplus all_deleted dropped kept whole none show ?thesis by blast
qed

text \<open>
  Claim C10. With a non-negative retention count \<^verbatim>\<open>PurgeDumps\<close> never panics, and the slice
  \<^verbatim>\<open>keys[RetentionCount:]\<close> taken when \<^verbatim>\<open>len(keys) > RetentionCount\<close> is in bounds. With a
  negative retention count and any listed keys, the guard
  \<^verbatim>\<open>len(keys) <= RetentionCount\<close> does not fire and the slice expression panics with
  \<^verbatim>\<open>slice bounds out of range\<close>.
\<close>

theorem PurgeDumps_slice_bounds:
  "(0 \<le> RetentionCount (Backup (cfg d)) \<longrightarrow> (\<forall>msg. fst (PurgeDumps pk d ctx w) \<noteq> Panics msg))
   \<and> (0 \<le> RetentionCount (Backup (cfg d)) \<and> RetentionCount (Backup (cfg d)) < int (length keys) \<longrightarrow>
        sliceFrom keys (RetentionCount (Backup (cfg d))) =
          Returns (drop (nat (RetentionCount (Backup (cfg d)))) keys))
   \<and> (RetentionCount (Backup (cfg d)) < 0 \<and> fst (ListDumps pk d ctx w) = Inr keys \<longrightarrow>
        \<not> int (length keys) \<le> RetentionCount (Backup (cfg d)) \<and>
        sliceFrom keys (RetentionCount (Backup (cfg d))) = Panics ''slice bounds out of range'' \<and>
        fst (PurgeDumps pk d ctx w) = Panics ''slice bounds out of range'')"
proof -
  let ?R = "RetentionCount (Backup (cfg d))"
  obtain r w1 where ls: "ListDumps pk d ctx w = (r, w1)"
    by (cases "ListDumps pk d ctx w")
  have safe: "fst (PurgeDumps pk d ctx w) \<noteq> Panics msg" if nonneg: "0 \<le> ?R" for msg
  proof (cases r)
    case (Inl err)
    with ls show ?thesis by (simp add: PurgeDumps_list_failed)
  next
    case (Inr ks)
    show ?thesis
    proof (cases "int (length ks) \<le> ?R")
      case True
      with ls Inr show ?thesis by (simp add: PurgeDumps_within_retention)
    next
      case False
      then have "?R < int (length ks)" by simp
      with ls Inr nonneg PurgeDumps_surplus [of pk d ctx w ks w1] show ?thesis by simp
    qed
  qed
  have inb: "sliceFrom keys ?R = Returns (drop (nat ?R) keys)"
    if "0 \<le> ?R" "?R < int (length keys)"
    using that by (simp add: sliceFrom_def)
  have panics: "\<not> int (length keys) \<le> ?R \<and>
        sliceFrom keys ?R = Panics ''slice bounds out of range'' \<and>
        fst (PurgeDumps pk d ctx w) = Panics ''slice bounds out of range''"
    if "?R < 0" "fst (ListDumps pk d ctx w) = Inr keys"
    using that ls PurgeDumps_negative [of pk d ctx w keys w1] by (simp add: sliceFrom_def)
  from safe inb panics show ?thesis by blast
qed

subsection \<open>Dump\<close>

text \<open>
  Claim C7. When \<^verbatim>\<open>CreateDump\<close> succeeds with \<open>resp\<close>: if the following \<^verbatim>\<open>PurgeDumps\<close>
  returns an error, \<^verbatim>\<open>Dump\<close> returns that error and no dump response; if it returns nil,
  \<^verbatim>\<open>Dump\<close> returns \<open>resp\<close> unchanged and no error. Either way the calls made are those of
  \<^verbatim>\<open>CreateDump\<close> followed by those of \<^verbatim>\<open>PurgeDumps\<close>, so the upload is not taken back.
\<close>

theorem Dump_after_purge:
  assumes "fst (CreateDump pk d ctx w) = Inr resp"
  shows "(fst (PurgeDumps pk d ctx (snd (CreateDump pk d ctx w))) = Returns (Some pErr) \<longrightarrow>
            fst (Dump pk d ctx w) = Returns (Inl pErr))
       \<and> (fst (PurgeDumps pk d ctx (snd (CreateDump pk d ctx w))) = Returns None \<longrightarrow>
            fst (Dump pk d ctx w) = Returns (Inr resp))
       \<and> snd (Dump pk d ctx w) = snd (PurgeDumps pk d ctx (snd (CreateDump pk d ctx w)))"
proof -
  obtain w1 where cr: "CreateDump pk d ctx w = (Inr resp, w1)"
    using assms by (cases "CreateDump pk d ctx w") simp
  obtain r w2 where pu: "PurgeDumps pk d ctx w1 = (r, w2)"
    by (cases "PurgeDumps pk d ctx w1")
  show ?thesis
  proof (cases r)
    case (Panics msg)
    with cr pu show ?thesis by (simp add: Dump_def)
  next
    case (Returns res)
    with cr pu show ?thesis by (cases res) (simp_all add: Dump_def)
  qed
qed

subsection \<open>Encryption before upload\<close>

lemma archiveStage_encrypting:
  assumes "Encrypt (Backup (cfg d))"
    and "ArchiveDir pk w (exportLocation resp) = Inr archivePath"
  shows "(FetchGPGPubKeyFromKeyServer (gpg d) (w @ [FileArchiveDir (exportLocation resp)])
            (KeyID (GPG (cfg d))) (KeyServer (GPG (cfg d))) = Inl gErr \<longrightarrow>
          archiveStage pk d ctx resp dumpResp w =
            (Inl (External gErr),
             w @ [FileArchiveDir (exportLocation resp),
                  GpgFetchKey (KeyID (GPG (cfg d))) (KeyServer (GPG (cfg d)))]))
       \<and> (FetchGPGPubKeyFromKeyServer (gpg d) (w @ [FileArchiveDir (exportLocation resp)])
            (KeyID (GPG (cfg d))) (KeyServer (GPG (cfg d))) = Inr key \<and>
          EncryptFile (gpg d)
            (w @ [FileArchiveDir (exportLocation resp),
                  GpgFetchKey (KeyID (GPG (cfg d))) (KeyServer (GPG (cfg d)))]) archivePath = Inl gErr \<longrightarrow>
          archiveStage pk d ctx resp dumpResp w =
            (Inl (External gErr),
             w @ [FileArchiveDir (exportLocation resp),
                  GpgFetchKey (KeyID (GPG (cfg d))) (KeyServer (GPG (cfg d))),
                  GpgEncryptFile archivePath]))
       \<and> (FetchGPGPubKeyFromKeyServer (gpg d) (w @ [FileArchiveDir (exportLocation resp)])
            (KeyID (GPG (cfg d))) (KeyServer (GPG (cfg d))) = Inr key \<and>
          EncryptFile (gpg d)
            (w @ [FileArchiveDir (exportLocation resp),
                  GpgFetchKey (KeyID (GPG (cfg d))) (KeyServer (GPG (cfg d)))]) archivePath = Inr enc \<longrightarrow>
          snd (archiveStage pk d ctx resp dumpResp w) =
             w @ [FileArchiveDir (exportLocation resp),
                  GpgFetchKey (KeyID (GPG (cfg d))) (KeyServer (GPG (cfg d))),
                  GpgEncryptFile archivePath, StoreName, StoreUpload enc])"
  using assms by (simp add: archiveStage_def uploadStage_world)

lemma archiveStage_encrypting_uploads:
  assumes "Encrypt (Backup (cfg d))"
  shows "uploads (snd (archiveStage pk d ctx resp dumpResp w)) = uploads w \<or>
         (\<exists>wg a enc. EncryptFile (gpg d) wg a = Inr enc \<and>
            uploads (snd (archiveStage pk d ctx resp dumpResp w)) = uploads w @ [enc])"
  using assms
  by (auto simp: archiveStage_def uploadStage_world uploads_append split: sum.splits)

text \<open>
  Claim C8. With encryption configured, \<^verbatim>\<open>CreateDump\<close> uploads nothing or exactly one file,
  whose path is one that \<^verbatim>\<open>EncryptFile\<close> returned. Once the archive exists: if the key fetch
  fails, or the key fetch succeeds and the encryption fails, \<^verbatim>\<open>CreateDump\<close> returns that
  error and has uploaded nothing; if both succeed, the one upload is that of the encrypted
  file's path.
\<close>

theorem CreateDump_uploads_encrypted:
  assumes "Encrypt (Backup (cfg d))"
  shows "(uploads (snd (CreateDump pk d ctx w)) = uploads w \<or>
          (\<exists>wg a enc. EncryptFile (gpg d) wg a = Inr enc \<and>
             uploads (snd (CreateDump pk d ctx w)) = uploads w @ [enc]))
       \<and> (runPreChecks pk d w = (None, w1) \<and> export pk d ctx w1 = (Inr resp, w2) \<and>
          0 < exportedDatabases resp \<and> ArchiveDir pk w2 (exportLocation resp) = Inr archivePath \<longrightarrow>
            (FetchGPGPubKeyFromKeyServer (gpg d) (w2 @ [FileArchiveDir (exportLocation resp)])
               (KeyID (GPG (cfg d))) (KeyServer (GPG (cfg d))) = Inl gErr \<longrightarrow>
             CreateDump pk d ctx w =
               (Inl (External gErr),
                w2 @ [FileArchiveDir (exportLocation resp),
                      GpgFetchKey (KeyID (GPG (cfg d))) (KeyServer (GPG (cfg d)))]) \<and>
             uploads (snd (CreateDump pk d ctx w)) = uploads w)
          \<and> (FetchGPGPubKeyFromKeyServer (gpg d) (w2 @ [FileArchiveDir (exportLocation resp)])
               (KeyID (GPG (cfg d))) (KeyServer (GPG (cfg d))) = Inr key \<and>
             EncryptFile (gpg d)
               (w2 @ [FileArchiveDir (exportLocation resp),
                      GpgFetchKey (KeyID (GPG (cfg d))) (KeyServer (GPG (cfg d)))]) archivePath = Inl gErr \<longrightarrow>
             CreateDump pk d ctx w =
               (Inl (External gErr),
                w2 @ [FileArchiveDir (exportLocation resp),
                      GpgFetchKey (KeyID (GPG (cfg d))) (KeyServer (GPG (cfg d))),
                      GpgEncryptFile archivePath]) \<and>
             uploads (snd (CreateDump pk d ctx w)) = uploads w)
          \<and> (FetchGPGPubKeyFromKeyServer (gpg d) (w2 @ [FileArchiveDir (exportLocation resp)])
               (KeyID (GPG (cfg d))) (KeyServer (GPG (cfg d))) = Inr key \<and>
             EncryptFile (gpg d)
               (w2 @ [FileArchiveDir (exportLocation resp),
                      GpgFetchKey (KeyID (GPG (cfg d))) (KeyServer (GPG (cfg d)))]) archivePath = Inr enc \<longrightarrow>
             snd (CreateDump pk d ctx w) =
                w2 @ [FileArchiveDir (exportLocation resp),
                      GpgFetchKey (KeyID (GPG (cfg d))) (KeyServer (GPG (cfg d))),
                      GpgEncryptFile archivePath, StoreName, StoreUpload enc] \<and>
             uploads (snd (CreateDump pk d ctx w)) = uploads w @ [enc]))"
proof -
  let ?dr = "\<lambda>resp. \<lparr>TotalDatabases = totalDatabases resp, ExportedDatabases = exportedDatabases resp,
          DumpLocation = exportLocation resp, ArchiveLocation = [], StorageKey = []\<rparr>"
  have general: "uploads (snd (CreateDump pk d ctx w)) = uploads w \<or>
          (\<exists>wg a enc. EncryptFile (gpg d) wg a = Inr enc \<and>
             uploads (snd (CreateDump pk d ctx w)) = uploads w @ [enc])"
  proof -
    obtain r1 v1 where pre: "runPreChecks pk d w = (r1, v1)"
      by (cases "runPreChecks pk d w")
    obtain r2 v2 where ex: "export pk d ctx v1 = (r2, v2)"
      by (cases "export pk d ctx v1")
    have u1: "uploads v1 = uploads w"
      using pre runPreChecks_uploads [of pk d w] by simp
    have u2: "uploads v2 = uploads w"
      using ex u1 export_uploads [of pk d ctx v1] by simp
    show ?thesis
    proof (cases r1)
      case (Some err)
      with pre u1 show ?thesis by (simp add: CreateDump_preflight_failed)
    next
      case None
      show ?thesis
      proof (cases r2)
        case (Inl err)
        with pre ex None u2 show ?thesis by (simp add: CreateDump_export_failed)
      next
        case (Inr rsp)
        show ?thesis
        proof (cases "0 < exportedDatabases rsp")
          case False
          with pre ex None Inr u2 show ?thesis by (simp add: CreateDump_nothing_exported)
        next
          case True
          with pre ex None Inr have "CreateDump pk d ctx w = archiveStage pk d ctx rsp (?dr rsp) v2"
            by (simp add: CreateDump_exported)
          with archiveStage_encrypting_uploads [OF assms, of pk ctx rsp "?dr rsp" v2] u2
          show ?thesis by simp
        qed
      qed
    qed
  qed
  have staged: "CreateDump pk d ctx w = archiveStage pk d ctx resp (?dr resp) w2 \<and> uploads w2 = uploads w"
    if "runPreChecks pk d w = (None, w1)" "export pk d ctx w1 = (Inr resp, w2)"
       "0 < exportedDatabases resp"
    using that runPreChecks_uploads [of pk d w] export_uploads [of pk d ctx w1]
    by (simp add: CreateDump_exported)
  show ?thesis
    using general staged
      archiveStage_encrypting [OF assms, of pk w2 resp archivePath gErr ctx "?dr resp" key enc]
    by (auto simp: uploads_append)
qed

subsection \<open>Enumeration and cancellation\<close>

text \<open>
  Claim C4, amended. When the enumeration query succeeds, the database sequence that
  \<^verbatim>\<open>export\<close> builds is the sequence of the non-empty whitespace-trimmed lines of the query
  output, in the order of the output and with repeated names kept; \<^verbatim>\<open>totalDatabases\<close> is its
  length, and \<^verbatim>\<open>pg_dump\<close> is run once for each entry, in that order.
\<close>

theorem export_enumeration:
  assumes "Output (exec d) ctx w (psqlCmd d) = (output, None)"
  shows "collect pk (Split output) [] 0 =
           (trimmedLines pk output, int (length (trimmedLines pk output)))
       \<and> (\<exists>resp. fst (export pk d ctx w) = Inr resp \<and>
             totalDatabases resp = int (length (trimmedLines pk output)))
       \<and> snd (export pk d ctx w) =
           w @ ExecOutput (psqlCmd d) # pgDumps pk d (trimmedLines pk output)"
  using export_enumerated [OF assms, of pk] by (simp add: collect_trimmedLines)

lemma dumpEach_context:
  assumes "\<forall>v c. CombinedOutput (exec d) ctx v c = CombinedOutput (exec d) ctx' v c"
  shows "dumpEach pk d ctx dbs e w = dumpEach pk d ctx' dbs e w"
  using assms by (induction dbs arbitrary: e w) simp_all

text \<open>
  Claim C6, amended. \<^verbatim>\<open>export\<close> does not read the cancellation signal; it only hands the
  context to the commands it runs. Whatever the signal, when the enumeration query succeeds
  \<^verbatim>\<open>export\<close> runs \<^verbatim>\<open>pg_dump\<close> for every enumerated database and returns an export result,
  not an error; it returns an error only when the enumeration query fails; and with a
  command runner that does not look at the context, its result is the same for every
  context.
\<close>

theorem export_ignores_cancellation:
  "(snd (Output (exec d) ctx w (psqlCmd d)) = None \<longrightarrow>
      (\<exists>resp. fst (export pk d ctx w) = Inr resp) \<and>
      snd (export pk d ctx w) =
        w @ ExecOutput (psqlCmd d) #
            pgDumps pk d (trimmedLines pk (fst (Output (exec d) ctx w (psqlCmd d)))))
   \<and> (fst (export pk d ctx w) = Inl e \<longrightarrow>
        (\<exists>err. snd (Output (exec d) ctx w (psqlCmd d)) = Some err \<and>
           e = Errorf ''error getting list of databases'' (External err)))
   \<and> ((\<forall>v c. Output (exec d) ctx v c = Output (exec d) ctx' v c) \<and>
       (\<forall>v c. CombinedOutput (exec d) ctx v c = CombinedOutput (exec d) ctx' v c) \<longrightarrow>
        export pk d ctx w = export pk d ctx' w)"
proof -
  obtain outp r where run: "Output (exec d) ctx w (psqlCmd d) = (outp, r)"
    by (cases "Output (exec d) ctx w (psqlCmd d)")
  have a: "(\<exists>resp. fst (export pk d ctx w) = Inr resp) \<and>
      snd (export pk d ctx w) =
        w @ ExecOutput (psqlCmd d) #
            pgDumps pk d (trimmedLines pk (fst (Output (exec d) ctx w (psqlCmd d))))"
    if "snd (Output (exec d) ctx w (psqlCmd d)) = None"
    using that run export_enumerated [of d ctx w outp pk] by simp
  have b: "\<exists>err. snd (Output (exec d) ctx w (psqlCmd d)) = Some err \<and>
           e = Errorf ''error getting list of databases'' (External err)"
    if "fst (export pk d ctx w) = Inl e"
    using that by (rule export_error)
  have c: "export pk d ctx w = export pk d ctx' w"
    if o: "\<forall>v c. Output (exec d) ctx v c = Output (exec d) ctx' v c"
      and co: "\<forall>v c. CombinedOutput (exec d) ctx v c = CombinedOutput (exec d) ctx' v c"
  proof -
    from o have psql: "Output (exec d) ctx' w (psqlCmd d) = Output (exec d) ctx w (psqlCmd d)"
      by simp
    have dumps: "dumpEach pk d ctx = dumpEach pk d ctx'"
      by (intro ext) (rule dumpEach_context [OF co])
    show ?thesis
      unfolding export_def psql dumps by (rule refl)
  qed
  from a b c show ?thesis by blast
qed

text \<open>
  Claim C9. The result of the export stage satisfies
  \<^verbatim>\<open>0 <= exportedDatabases <= totalDatabases\<close>, and so do the counts of every
  \<^verbatim>\<open>DumpResponse\<close> returned by \<^verbatim>\<open>CreateDump\<close> or by \<^verbatim>\<open>Dump\<close>.
\<close>

theorem export_counts_bounded:
  "(fst (export pk d ctx w) = Inr resp \<longrightarrow>
      0 \<le> exportedDatabases resp \<and> exportedDatabases resp \<le> totalDatabases resp)
   \<and> (fst (CreateDump pk d ctx w) = Inr dr \<longrightarrow>
      0 \<le> ExportedDatabases dr \<and> ExportedDatabases dr \<le> TotalDatabases dr)
   \<and> (fst (Dump pk d ctx w) = Returns (Inr dr') \<longrightarrow>
      0 \<le> ExportedDatabases dr' \<and> ExportedDatabases dr' \<le> TotalDatabases dr')"
proof -
  have "fst (CreateDump pk d ctx w) = Inr dr'" if "fst (Dump pk d ctx w) = Returns (Inr dr')"
  proof -
    obtain r1 w1 where cr: "CreateDump pk d ctx w = (r1, w1)"
      by (cases "CreateDump pk d ctx w")
    obtain r2 w2 where pu: "PurgeDumps pk d ctx w1 = (r2, w2)"
      by (cases "PurgeDumps pk d ctx w1")
    from that cr pu show ?thesis
      by (auto simp: Dump_def split: sum.splits outcome.splits option.splits)
  qed
  then show ?thesis
    using export_bounds [of pk d ctx w resp] CreateDump_counts [of pk d ctx w dr]
      CreateDump_counts [of pk d ctx w dr']
    by blast
qed

section \<open>Concrete runs\<close>

lemmas mock_defs = mockPackages_def mockDumpster_def mockExec_def mockStore_def mockConfig_def
  mockGPG_def background_def cancelledAfter_def trimASCII_def asciiSpace_def sortDesc_def
  storedKeys_def

lemma purgeRun_ListDumps:
  "ListDumps mockPackages (purgeRun r u) background w =
     (Inr [''20240103000000'', ''20240102000000'', ''20240101000000''],
      w @ [StoreList, StoreTrimPrefix storedKeys])"
  by (simp add: ListDumps_def purgeRun_def mock_defs)

lemma purgeRun_retention: "RetentionCount (Backup (cfg (purgeRun r u))) = r"
  by (simp add: purgeRun_def mock_defs)

lemma purgeRun_Delete:
  "Delete (store (purgeRun r u)) ctx w k = (if k \<in> set u then Some ''delete failed'' else None)"
  by (simp add: purgeRun_def mock_defs)

lemma purgeRun_preflight:
  "runPreChecks mockPackages (purgeRun r u) [] =
     (None, [OsRemoveAll ''/tmp/export'', OsMkdirAll ''/tmp/export'', ExecLookPath ''psql'',
       ExecLookPath ''pg_dump''])"
  by (simp add: runPreChecks_def purgeRun_def mock_defs)

lemma purgeRun_export:
  "export mockPackages (purgeRun r u) background
      [OsRemoveAll ''/tmp/export'', OsMkdirAll ''/tmp/export'', ExecLookPath ''psql'',
       ExecLookPath ''pg_dump''] =
     (Inr \<lparr>totalDatabases = 1, exportedDatabases = 1, exportLocation = ''/tmp/export''\<rparr>,
      [OsRemoveAll ''/tmp/export'', OsMkdirAll ''/tmp/export'', ExecLookPath ''psql'',
       ExecLookPath ''pg_dump'', ExecOutput (psqlCmd (purgeRun r u)),
       ExecCombinedOutput (pgDumpCmd mockPackages (purgeRun r u) ''db1'')])"
  by (simp add: export_def purgeRun_def mock_defs pgDumpCmd_def)

lemma failedDumpRun_CreateDump:
  "fst (CreateDump mockPackages failedDumpRun background []) =
     Inl (New ''no databases were exported'')"
  by code_simp

text \<open>
  A run whose only dump fails, and a run whose dump succeeds.
\<close>

theorem CreateDump_zero_export_witness:
  "fst (CreateDump mockPackages failedDumpRun background []) = Inl (New ''no databases were exported'')
   \<and> archives (snd (CreateDump mockPackages failedDumpRun background [])) = []
   \<and> uploads (snd (CreateDump mockPackages failedDumpRun background [])) = []
   \<and> fst (export mockPackages (purgeRun 2 []) background
            (snd (runPreChecks mockPackages (purgeRun 2 []) []))) =
       Inr \<lparr>totalDatabases = 1, exportedDatabases = 1, exportLocation = ''/tmp/export''\<rparr>
   \<and> fst (CreateDump mockPackages (purgeRun 2 []) background []) \<noteq>
       Inl (New ''no databases were exported'')"
proof -
  note zero = CreateDump_zero_export [where pk = mockPackages and d = failedDumpRun
      and ctx = background and w = "[]"]
  from zero failedDumpRun_CreateDump
  have "archives (snd (CreateDump mockPackages failedDumpRun background [])) = archives [] \<and>
        uploads (snd (CreateDump mockPackages failedDumpRun background [])) = uploads []"
    by blast
  then have untouched: "archives (snd (CreateDump mockPackages failedDumpRun background [])) = [] \<and>
        uploads (snd (CreateDump mockPackages failedDumpRun background [])) = []"
    by simp
  have pos: "0 < exportedDatabases
      \<lparr>totalDatabases = 1, exportedDatabases = 1, exportLocation = ''/tmp/export''\<rparr>"
    by simp
  from CreateDump_zero_export [where pk = mockPackages and d = "purgeRun 2 []"
      and ctx = background and w = "[]"] purgeRun_preflight [of 2 "[]"] purgeRun_export [of 2 "[]"] pos
  have "fst (CreateDump mockPackages (purgeRun 2 []) background []) \<noteq>
       Inl (New ''no databases were exported'')"
    by blast
  with untouched failedDumpRun_CreateDump show ?thesis
    by (simp add: purgeRun_preflight purgeRun_export)
qed

text \<open>
  A run with two databases of which one is dumped: the counts are 2 and 1 at every level.
\<close>

theorem export_counts_bounded_witness:
  "fst (export mockPackages partialRun background []) =
     Inr \<lparr>totalDatabases = 2, exportedDatabases = 1, exportLocation = ''/tmp/export''\<rparr>
   \<and> fst (CreateDump mockPackages partialRun background []) =
     Inr \<lparr>TotalDatabases = 2, ExportedDatabases = 1, DumpLocation = ''/tmp/export'',
          ArchiveLocation = ''/tmp/export.tar.gz'', StorageKey = ''20240104000000''\<rparr>
   \<and> fst (Dump mockPackages partialRun background []) =
     Returns (Inr \<lparr>TotalDatabases = 2, ExportedDatabases = 1, DumpLocation = ''/tmp/export'',
          ArchiveLocation = ''/tmp/export.tar.gz'', StorageKey = ''20240104000000''\<rparr>)
   \<and> 0 \<le> exportedDatabases
          \<lparr>totalDatabases = 2, exportedDatabases = 1, exportLocation = ''/tmp/export''\<rparr>
   \<and> exportedDatabases
          \<lparr>totalDatabases = 2, exportedDatabases = 1, exportLocation = ''/tmp/export''\<rparr>
       \<le> totalDatabases
          \<lparr>totalDatabases = 2, exportedDatabases = 1, exportLocation = ''/tmp/export''\<rparr>
   \<and> 0 \<le> ExportedDatabases
          \<lparr>TotalDatabases = 2, ExportedDatabases = 1, DumpLocation = ''/tmp/export'',
           ArchiveLocation = ''/tmp/export.tar.gz'', StorageKey = ''20240104000000''\<rparr>
   \<and> ExportedDatabases
          \<lparr>TotalDatabases = 2, ExportedDatabases = 1, DumpLocation = ''/tmp/export'',
           ArchiveLocation = ''/tmp/export.tar.gz'', StorageKey = ''20240104000000''\<rparr>
       \<le> TotalDatabases
          \<lparr>TotalDatabases = 2, ExportedDatabases = 1, DumpLocation = ''/tmp/export'',
           ArchiveLocation = ''/tmp/export.tar.gz'', StorageKey = ''20240104000000''\<rparr>"
proof -
  have e: "fst (export mockPackages partialRun background []) =
     Inr \<lparr>totalDatabases = 2, exportedDatabases = 1, exportLocation = ''/tmp/export''\<rparr>"
    by code_simp
  have c: "fst (CreateDump mockPackages partialRun background []) =
     Inr \<lparr>TotalDatabases = 2, ExportedDatabases = 1, DumpLocation = ''/tmp/export'',
          ArchiveLocation = ''/tmp/export.tar.gz'', StorageKey = ''20240104000000''\<rparr>"
    by code_simp
  have u: "fst (Dump mockPackages partialRun background []) =
     Returns (Inr \<lparr>TotalDatabases = 2, ExportedDatabases = 1, DumpLocation = ''/tmp/export'',
          ArchiveLocation = ''/tmp/export.tar.gz'', StorageKey = ''20240104000000''\<rparr>)"
    by code_simp
  from export_counts_bounded [where pk = mockPackages and d = partialRun and ctx = background
      and w = "[]"] e c u
  show ?thesis by blast
qed

lemma partialRun_psql:
  "Output (exec partialRun) background [] (psqlCmd partialRun) =
     (''db1\<newline> db2 \<newline>\<newline>'', None)"
  by (simp add: partialRun_def mock_defs)

text \<open>
  A query output with a padded name, a blank line and a final line feed.
\<close>

theorem export_enumeration_witness:
  "Output (exec partialRun) background [] (psqlCmd partialRun) =
     (''db1\<newline> db2 \<newline>\<newline>'', None)
   \<and> trimmedLines mockPackages ''db1\<newline> db2 \<newline>\<newline>'' = [''db1'', ''db2'']
   \<and> collect mockPackages (Split ''db1\<newline> db2 \<newline>\<newline>'') [] 0 = ([''db1'', ''db2''], 2)
   \<and> snd (export mockPackages partialRun background []) =
       [ExecOutput (psqlCmd partialRun),
        ExecCombinedOutput (pgDumpCmd mockPackages partialRun ''db1''),
        ExecCombinedOutput (pgDumpCmd mockPackages partialRun ''db2'')]"
proof -
  have t: "trimmedLines mockPackages ''db1\<newline> db2 \<newline>\<newline>'' = [''db1'', ''db2'']"
    by (simp add: trimmedLines_def mock_defs)
  from export_enumeration [OF partialRun_psql, of mockPackages] t partialRun_psql
  show ?thesis by (simp add: pgDumps_def)
qed

text \<open>
  Claim C4 as stated fails when the output repeats a name: the sequence built is not the
  deduplicated one, \<^verbatim>\<open>totalDatabases\<close> is 2 where one name survives deduplication, and the
  database is dumped twice.
\<close>

theorem export_keeps_duplicates:
  "fst (Output (exec duplicateRun) background [] (psqlCmd duplicateRun)) = ''db1\<newline>db1\<newline>''
   \<and> fst (collect mockPackages (Split ''db1\<newline>db1\<newline>'') [] 0) = [''db1'', ''db1'']
   \<and> fst (collect mockPackages (Split ''db1\<newline>db1\<newline>'') [] 0) \<noteq>
       remdups (trimmedLines mockPackages ''db1\<newline>db1\<newline>'')
   \<and> export mockPackages duplicateRun background [] =
       (Inr \<lparr>totalDatabases = 2, exportedDatabases = 2, exportLocation = ''/tmp/export''\<rparr>,
        [ExecOutput (psqlCmd duplicateRun),
         ExecCombinedOutput (pgDumpCmd mockPackages duplicateRun ''db1''),
         ExecCombinedOutput (pgDumpCmd mockPackages duplicateRun ''db1'')])
   \<and> int (length (remdups (trimmedLines mockPackages ''db1\<newline>db1\<newline>''))) = 1"
  by (simp add: export_def duplicateRun_def mock_defs trimmedLines_def pgDumpCmd_def)

text \<open>
  Claim C6 as stated fails: the context is not cancelled before the first dump and is
  cancelled between the first and the second; the second \<^verbatim>\<open>pg_dump\<close> is still run, fails
  with the cancellation, is skipped, and \<^verbatim>\<open>export\<close> returns a result with one database
  exported out of two and no error.
\<close>

theorem export_continues_after_cancellation:
  "\<not> cancelledAfter 2 [ExecOutput (psqlCmd twoDatabaseRun)]
   \<and> cancelledAfter 2
       [ExecOutput (psqlCmd twoDatabaseRun),
        ExecCombinedOutput (pgDumpCmd mockPackages twoDatabaseRun ''db1'')]
   \<and> CombinedOutput (exec twoDatabaseRun) (cancelledAfter 2)
       [ExecOutput (psqlCmd twoDatabaseRun),
        ExecCombinedOutput (pgDumpCmd mockPackages twoDatabaseRun ''db1'')]
       (pgDumpCmd mockPackages twoDatabaseRun ''db2'') = ([], Some ''context canceled'')
   \<and> export mockPackages twoDatabaseRun (cancelledAfter 2) [] =
       (Inr \<lparr>totalDatabases = 2, exportedDatabases = 1, exportLocation = ''/tmp/export''\<rparr>,
        [ExecOutput (psqlCmd twoDatabaseRun),
         ExecCombinedOutput (pgDumpCmd mockPackages twoDatabaseRun ''db1''),
         ExecCombinedOutput (pgDumpCmd mockPackages twoDatabaseRun ''db2'')])"
  by (simp add: export_def twoDatabaseRun_def mock_defs pgDumpCmd_def)

text \<open>
  The same run, a run whose query fails, and a run whose command runner ignores the context.
\<close>

theorem export_ignores_cancellation_witness:
  "snd (Output (exec twoDatabaseRun) (cancelledAfter 2) [] (psqlCmd twoDatabaseRun)) = None
   \<and> snd (export mockPackages twoDatabaseRun (cancelledAfter 2) []) =
       [ExecOutput (psqlCmd twoDatabaseRun),
        ExecCombinedOutput (pgDumpCmd mockPackages twoDatabaseRun ''db1''),
        ExecCombinedOutput (pgDumpCmd mockPackages twoDatabaseRun ''db2'')]
   \<and> fst (export mockPackages unreachableRun (cancelledAfter 2) []) =
       Inl (Errorf ''error getting list of databases'' (External ''connection refused''))
   \<and> snd (Output (exec unreachableRun) (cancelledAfter 2) [] (psqlCmd unreachableRun)) =
       Some ''connection refused''
   \<and> export mockPackages deafRun (cancelledAfter 2) [] = export mockPackages deafRun background []"
proof -
  have p: "Output (exec twoDatabaseRun) (cancelledAfter 2) [] (psqlCmd twoDatabaseRun) =
      (''db1\<newline>db2\<newline>'', None)"
    by (simp add: twoDatabaseRun_def mock_defs)
  have t: "trimmedLines mockPackages ''db1\<newline>db2\<newline>'' = [''db1'', ''db2'']"
    by (simp add: trimmedLines_def mock_defs)
  from export_ignores_cancellation [where pk = mockPackages and d = twoDatabaseRun
      and ctx = "cancelledAfter 2" and w = "[]"] p
  have "snd (export mockPackages twoDatabaseRun (cancelledAfter 2) []) =
        [] @ ExecOutput (psqlCmd twoDatabaseRun) #
             pgDumps mockPackages twoDatabaseRun (trimmedLines mockPackages ''db1\<newline>db2\<newline>'')"
    by simp
  then have a: "snd (export mockPackages twoDatabaseRun (cancelledAfter 2) []) =
       [ExecOutput (psqlCmd twoDatabaseRun),
        ExecCombinedOutput (pgDumpCmd mockPackages twoDatabaseRun ''db1''),
        ExecCombinedOutput (pgDumpCmd mockPackages twoDatabaseRun ''db2'')]"
    by (simp add: t pgDumps_def)
  have f: "fst (export mockPackages unreachableRun (cancelledAfter 2) []) =
       Inl (Errorf ''error getting list of databases'' (External ''connection refused''))"
    by (simp add: export_def unreachableRun_def twoDatabaseRun_def mock_defs)
  from export_ignores_cancellation [where pk = mockPackages and d = unreachableRun
      and ctx = "cancelledAfter 2" and w = "[]"
      and e = "Errorf ''error getting list of databases'' (External ''connection refused'')"] f
  have b: "snd (Output (exec unreachableRun) (cancelledAfter 2) [] (psqlCmd unreachableRun)) =
       Some ''connection refused''"
    by auto
  have o: "\<forall>v c. Output (exec deafRun) (cancelledAfter 2) v c = Output (exec deafRun) background v c"
    by (simp add: deafRun_def twoDatabaseRun_def mock_defs)
  have co: "\<forall>v c. CombinedOutput (exec deafRun) (cancelledAfter 2) v c =
                  CombinedOutput (exec deafRun) background v c"
    by (simp add: deafRun_def twoDatabaseRun_def mock_defs)
  from export_ignores_cancellation [where pk = mockPackages and d = deafRun
      and ctx = "cancelledAfter 2" and ctx' = background and w = "[]"] o co
  have c: "export mockPackages deafRun (cancelledAfter 2) [] = export mockPackages deafRun background []"
    by blast
  from p a f b c show ?thesis by simp
qed


text \<open>
  A dump followed by a purge that succeeds, and one followed by a purge whose deletion fails.
\<close>

theorem Dump_after_purge_witness:
  "fst (CreateDump mockPackages (purgeRun 2 []) background []) =
     Inr \<lparr>TotalDatabases = 1, ExportedDatabases = 1, DumpLocation = ''/tmp/export'',
          ArchiveLocation = ''/tmp/export.tar.gz'', StorageKey = ''20240104000000''\<rparr>
   \<and> fst (PurgeDumps mockPackages (purgeRun 2 []) background
            (snd (CreateDump mockPackages (purgeRun 2 []) background []))) = Returns None
   \<and> fst (Dump mockPackages (purgeRun 2 []) background []) =
     Returns (Inr \<lparr>TotalDatabases = 1, ExportedDatabases = 1, DumpLocation = ''/tmp/export'',
          ArchiveLocation = ''/tmp/export.tar.gz'', StorageKey = ''20240104000000''\<rparr>)
   \<and> fst (CreateDump mockPackages (purgeRun 2 [''20240101000000'']) background []) =
     Inr \<lparr>TotalDatabases = 1, ExportedDatabases = 1, DumpLocation = ''/tmp/export'',
          ArchiveLocation = ''/tmp/export.tar.gz'', StorageKey = ''20240104000000''\<rparr>
   \<and> fst (PurgeDumps mockPackages (purgeRun 2 [''20240101000000'']) background
            (snd (CreateDump mockPackages (purgeRun 2 [''20240101000000'']) background []))) =
     Returns (Some (Errorf ''error deleting backup 20240101000000'' (External ''delete failed'')))
   \<and> fst (Dump mockPackages (purgeRun 2 [''20240101000000'']) background []) =
     Returns (Inl (Errorf ''error deleting backup 20240101000000'' (External ''delete failed'')))"
proof -
  have c1: "fst (CreateDump mockPackages (purgeRun 2 []) background []) =
     Inr \<lparr>TotalDatabases = 1, ExportedDatabases = 1, DumpLocation = ''/tmp/export'',
          ArchiveLocation = ''/tmp/export.tar.gz'', StorageKey = ''20240104000000''\<rparr>"
    by code_simp
  have p1: "fst (PurgeDumps mockPackages (purgeRun 2 []) background
            (snd (CreateDump mockPackages (purgeRun 2 []) background []))) = Returns None"
    by code_simp
  have c2: "fst (CreateDump mockPackages (purgeRun 2 [''20240101000000'']) background []) =
     Inr \<lparr>TotalDatabases = 1, ExportedDatabases = 1, DumpLocation = ''/tmp/export'',
          ArchiveLocation = ''/tmp/export.tar.gz'', StorageKey = ''20240104000000''\<rparr>"
    by code_simp
  have p2: "fst (PurgeDumps mockPackages (purgeRun 2 [''20240101000000'']) background
            (snd (CreateDump mockPackages (purgeRun 2 [''20240101000000'']) background []))) =
     Returns (Some (Errorf ''error deleting backup 20240101000000'' (External ''delete failed'')))"
    by code_simp
  from Dump_after_purge [OF c1] p1
  have d1: "fst (Dump mockPackages (purgeRun 2 []) background []) =
     Returns (Inr \<lparr>TotalDatabases = 1, ExportedDatabases = 1, DumpLocation = ''/tmp/export'',
          ArchiveLocation = ''/tmp/export.tar.gz'', StorageKey = ''20240104000000''\<rparr>)"
    by blast
  from Dump_after_purge [OF c2] p2
  have d2: "fst (Dump mockPackages (purgeRun 2 [''20240101000000'']) background []) =
     Returns (Inl (Errorf ''error deleting backup 20240101000000'' (External ''delete failed'')))"
    by blast
  from c1 p1 d1 c2 p2 d2 show ?thesis by blast
qed

text \<open>
  Retention 0 with three backups: the deletion of the second surplus key fails, the first
  stays deleted and the third is not attempted.
\<close>

theorem PurgeDumps_first_failure_witness:
  "sliceFrom [''20240103000000'', ''20240102000000'', ''20240101000000'']
      (RetentionCount (Backup (cfg (purgeRun 0 [''20240102000000''])))) =
     Returns ([''20240103000000''] @ ''20240102000000'' # [''20240101000000''])
   \<and> PurgeDumps mockPackages (purgeRun 0 [''20240102000000'']) background [] =
       (Returns (Some (Errorf ''error deleting backup 20240102000000'' (External ''delete failed''))),
        [StoreList, StoreTrimPrefix storedKeys,
         StoreDelete ''20240103000000'', StoreDelete ''20240102000000''])
   \<and> deletes (snd (PurgeDumps mockPackages (purgeRun 0 [''20240102000000'']) background [])) =
       [''20240103000000'', ''20240102000000'']"
proof -
  let ?d = "purgeRun 0 [''20240102000000'']"
  let ?w1 = "[] @ [StoreList, StoreTrimPrefix storedKeys]"
  have h3: "sliceFrom [''20240103000000'', ''20240102000000'', ''20240101000000'']
      (RetentionCount (Backup (cfg ?d))) =
     Returns ([''20240103000000''] @ ''20240102000000'' # [''20240101000000''])"
    by (simp add: sliceFrom_def purgeRun_retention)
  have h4: "\<forall>i < length [''20240103000000''].
      Delete (store ?d) background (?w1 @ map StoreDelete (take i [''20240103000000'']))
        ([''20240103000000''] ! i) = None"
    by (simp add: purgeRun_Delete)
  have h5: "Delete (store ?d) background (?w1 @ map StoreDelete [''20240103000000''])
        ''20240102000000'' = Some ''delete failed''"
    by (simp add: purgeRun_Delete)
  from PurgeDumps_first_failure [OF purgeRun_ListDumps h3 h4 h5] h3
  show ?thesis by (simp add: deletes_append)
qed

text \<open>
  Three backups: with retention 2 the oldest is deleted and the two most recent are kept;
  with retention 5 nothing is deleted.
\<close>

theorem PurgeDumps_deletes_surplus_witness:
  "0 \<le> RetentionCount (Backup (cfg (purgeRun 2 [])))
   \<and> PurgeDumps mockPackages (purgeRun 2 []) background [] =
     (Returns None, [StoreList, StoreTrimPrefix storedKeys, StoreDelete ''20240101000000''])
   \<and> deletes (snd (PurgeDumps mockPackages (purgeRun 2 []) background [])) = [''20240101000000'']
   \<and> take (nat (RetentionCount (Backup (cfg (purgeRun 2 [])))))
        [''20240103000000'', ''20240102000000'', ''20240101000000''] =
       [''20240103000000'', ''20240102000000'']
   \<and> PurgeDumps mockPackages (purgeRun 5 []) background [] =
     (Returns None, [StoreList, StoreTrimPrefix storedKeys])"
proof -
  have h2: "0 \<le> RetentionCount (Backup (cfg (purgeRun 2 [])))"
    by (simp add: purgeRun_retention)
  have h5: "0 \<le> RetentionCount (Backup (cfg (purgeRun 5 [])))"
    by (simp add: purgeRun_retention)
  have h3: "\<forall>i < length (drop (nat (RetentionCount (Backup (cfg (purgeRun 2 [])))))
                [''20240103000000'', ''20240102000000'', ''20240101000000'']).
           Delete (store (purgeRun 2 [])) background
             (([] @ [StoreList, StoreTrimPrefix storedKeys]) @
                map StoreDelete (take i (drop (nat (RetentionCount (Backup (cfg (purgeRun 2 [])))))
                [''20240103000000'', ''20240102000000'', ''20240101000000''])))
             (drop (nat (RetentionCount (Backup (cfg (purgeRun 2 [])))))
                [''20240103000000'', ''20240102000000'', ''20240101000000''] ! i) = None"
    by (simp add: purgeRun_Delete)
  have n2: "nat (RetentionCount (Backup (cfg (purgeRun 2 [])))) = 2"
    by (simp add: purgeRun_retention)
  have within: "int (length [''20240103000000'', ''20240102000000'', ''20240101000000''])
      \<le> RetentionCount (Backup (cfg (purgeRun 5 [])))"
    by (simp add: purgeRun_retention)
  from PurgeDumps_deletes_surplus [OF purgeRun_ListDumps h2] h3
  have "PurgeDumps mockPackages (purgeRun 2 []) background [] =
          (Returns None, ([] @ [StoreList, StoreTrimPrefix storedKeys]) @
             map StoreDelete (drop (nat (RetentionCount (Backup (cfg (purgeRun 2 [])))))
               [''20240103000000'', ''20240102000000'', ''20240101000000'']))"
    by blast
  then have a: "PurgeDumps mockPackages (purgeRun 2 []) background [] =
     (Returns None, [StoreList, StoreTrimPrefix storedKeys, StoreDelete ''20240101000000''])"
    by (simp add: n2)
  from PurgeDumps_deletes_surplus [OF purgeRun_ListDumps h5] within
  have "PurgeDumps mockPackages (purgeRun 5 []) background [] =
     (Returns None, [] @ [StoreList, StoreTrimPrefix storedKeys])"
    by blast
  then have b: "PurgeDumps mockPackages (purgeRun 5 []) background [] =
     (Returns None, [StoreList, StoreTrimPrefix storedKeys])"
    by simp
  from h2 a b show ?thesis by (simp add: n2)
qed

text \<open>
  Claim C2 as stated fails for a negative retention count: with three backups and
  retention \<open>-1\<close> it promises \<open>max 0 (3 - (-1)) = 4\<close> deletions; \<^verbatim>\<open>PurgeDumps\<close> panics on the
  slice expression and deletes nothing.
\<close>

theorem PurgeDumps_negative_retention:
  "RetentionCount (Backup (cfg (purgeRun (- 1) []))) = - 1
   \<and> ListDumps mockPackages (purgeRun (- 1) []) background [] =
       (Inr [''20240103000000'', ''20240102000000'', ''20240101000000''],
        [StoreList, StoreTrimPrefix storedKeys])
   \<and> PurgeDumps mockPackages (purgeRun (- 1) []) background [] =
       (Panics ''slice bounds out of range'', [StoreList, StoreTrimPrefix storedKeys])
   \<and> deletes (snd (PurgeDumps mockPackages (purgeRun (- 1) []) background [])) = []
   \<and> max 0 (int (length [''20240103000000'', ''20240102000000'', ''20240101000000'']) - (- 1)) = 4
   \<and> int (length (deletes (snd (PurgeDumps mockPackages (purgeRun (- 1) []) background [])))) \<noteq>
       max 0 (int (length [''20240103000000'', ''20240102000000'', ''20240101000000'']) - (- 1))"
  by (simp add: PurgeDumps_def purgeRun_ListDumps [of "- 1" "[]" "[]", simplified]
      purgeRun_retention sliceFrom_def storedKeys_def)

text \<open>
  Three backups with retention 2, and with retention \<open>-1\<close>.
\<close>

theorem PurgeDumps_slice_bounds_witness:
  "0 \<le> RetentionCount (Backup (cfg (purgeRun 2 [])))
   \<and> fst (PurgeDumps mockPackages (purgeRun 2 []) background []) \<noteq> Panics ''slice bounds out of range''
   \<and> sliceFrom [''20240103000000'', ''20240102000000'', ''20240101000000'']
        (RetentionCount (Backup (cfg (purgeRun 2 [])))) = Returns [''20240101000000'']
   \<and> RetentionCount (Backup (cfg (purgeRun (- 1) []))) < 0
   \<and> fst (ListDumps mockPackages (purgeRun (- 1) []) background []) =
       Inr [''20240103000000'', ''20240102000000'', ''20240101000000'']
   \<and> [''20240103000000'', ''20240102000000'', ''20240101000000''] \<noteq> []
   \<and> fst (PurgeDumps mockPackages (purgeRun (- 1) []) background []) =
       Panics ''slice bounds out of range''"
proof -
  have r2: "0 \<le> RetentionCount (Backup (cfg (purgeRun 2 [])))
            \<and> RetentionCount (Backup (cfg (purgeRun 2 []))) <
                int (length [''20240103000000'', ''20240102000000'', ''20240101000000''])"
    by (simp add: purgeRun_retention)
  have n2: "nat (RetentionCount (Backup (cfg (purgeRun 2 [])))) = 2"
    by (simp add: purgeRun_retention)
  have rn: "RetentionCount (Backup (cfg (purgeRun (- 1) []))) < 0"
    by (simp add: purgeRun_retention)
  have ls: "fst (ListDumps mockPackages (purgeRun (- 1) []) background []) =
       Inr [''20240103000000'', ''20240102000000'', ''20240101000000'']"
    by (simp add: purgeRun_ListDumps)
  note inst2 = PurgeDumps_slice_bounds [where pk = mockPackages and d = "purgeRun 2 []"
      and ctx = background and w = "[]"
      and keys = "[''20240103000000'', ''20240102000000'', ''20240101000000'']"]
  from inst2 r2 have a: "fst (PurgeDumps mockPackages (purgeRun 2 []) background []) \<noteq>
      Panics ''slice bounds out of range''"
    by blast
  from inst2 r2 have "sliceFrom [''20240103000000'', ''20240102000000'', ''20240101000000'']
        (RetentionCount (Backup (cfg (purgeRun 2 [])))) =
      Returns (drop (nat (RetentionCount (Backup (cfg (purgeRun 2 [])))))
        [''20240103000000'', ''20240102000000'', ''20240101000000''])"
    by blast
  then have b: "sliceFrom [''20240103000000'', ''20240102000000'', ''20240101000000'']
        (RetentionCount (Backup (cfg (purgeRun 2 [])))) = Returns [''20240101000000'']"
    by (simp add: n2)
  from PurgeDumps_slice_bounds [where pk = mockPackages and d = "purgeRun (- 1) []"
      and ctx = background and w = "[]"
      and keys = "[''20240103000000'', ''20240102000000'', ''20240101000000'']"] rn ls
  have c: "fst (PurgeDumps mockPackages (purgeRun (- 1) []) background []) =
       Panics ''slice bounds out of range''"
    by blast
  from r2 a b rn ls c show ?thesis by simp
qed

lemma encryptedRun_preflight:
  "runPreChecks mockPackages (encryptedRun f e) [] =
     (None, [OsRemoveAll ''/tmp/export'', OsMkdirAll ''/tmp/export'', ExecLookPath ''psql'',
       ExecLookPath ''pg_dump''])"
  by (simp add: runPreChecks_def encryptedRun_def mock_defs)

lemma encryptedRun_export:
  "export mockPackages (encryptedRun f e) background
      [OsRemoveAll ''/tmp/export'', OsMkdirAll ''/tmp/export'', ExecLookPath ''psql'',
       ExecLookPath ''pg_dump''] =
     (Inr \<lparr>totalDatabases = 1, exportedDatabases = 1, exportLocation = ''/tmp/export''\<rparr>,
      [OsRemoveAll ''/tmp/export'', OsMkdirAll ''/tmp/export'', ExecLookPath ''psql'',
       ExecLookPath ''pg_dump'', ExecOutput (psqlCmd (encryptedRun f e)),
       ExecCombinedOutput (pgDumpCmd mockPackages (encryptedRun f e) ''db1'')])"
  by (simp add: export_def encryptedRun_def mock_defs pgDumpCmd_def)

lemma encryptedRun_gpg:
  "Encrypt (Backup (cfg (encryptedRun f e)))"
  "FetchGPGPubKeyFromKeyServer (gpg (encryptedRun f e)) w k s =
     (if f then Inr ''pubkey'' else Inl ''key server unreachable'')"
  "EncryptFile (gpg (encryptedRun f e)) w p =
     (if e then Inr (p @ ''.gpg'') else Inl ''encryption failed'')"
  by (simp_all add: encryptedRun_def mock_defs)

text \<open>
  Encryption configured: the key fetch fails; the encryption fails; both succeed and the
  encrypted file is the one uploaded.
\<close>

theorem CreateDump_uploads_encrypted_witness:
  "Encrypt (Backup (cfg (encryptedRun False True)))
   \<and> fst (CreateDump mockPackages (encryptedRun False True) background []) =
       Inl (External ''key server unreachable'')
   \<and> uploads (snd (CreateDump mockPackages (encryptedRun False True) background [])) = []
   \<and> fst (CreateDump mockPackages (encryptedRun True False) background []) =
       Inl (External ''encryption failed'')
   \<and> uploads (snd (CreateDump mockPackages (encryptedRun True False) background [])) = []
   \<and> archives (snd (CreateDump mockPackages (encryptedRun True True) background [])) =
       [''/tmp/export'']
   \<and> uploads (snd (CreateDump mockPackages (encryptedRun True True) background [])) =
       [''/tmp/export.tar.gz.gpg'']"
proof -
  let ?resp = "\<lparr>totalDatabases = 1, exportedDatabases = 1, exportLocation = ''/tmp/export''\<rparr>"
  have pos: "0 < exportedDatabases ?resp"
    by simp
  have ar: "ArchiveDir mockPackages w (exportLocation ?resp) = Inr ''/tmp/export.tar.gz''" for w
    by (simp add: mockPackages_def)
  from CreateDump_uploads_encrypted [OF encryptedRun_gpg(1), where pk = mockPackages
      and f1 = False and e1 = True and ctx = background and w = "[]" and resp = ?resp
      and archivePath = "''/tmp/export.tar.gz''" and gErr = "''key server unreachable''"]
    encryptedRun_preflight [of False True] encryptedRun_export [of False True] pos ar
    encryptedRun_gpg(2) [of False True]
  have a: "fst (CreateDump mockPackages (encryptedRun False True) background []) =
       Inl (External ''key server unreachable'')
   \<and> uploads (snd (CreateDump mockPackages (encryptedRun False True) background [])) = []"
    by simp
  from CreateDump_uploads_encrypted [OF encryptedRun_gpg(1), where pk = mockPackages
      and f1 = True and e1 = False and ctx = background and w = "[]" and resp = ?resp
      and archivePath = "''/tmp/export.tar.gz''" and gErr = "''encryption failed''"
      and key = "''pubkey''"]
    encryptedRun_preflight [of True False] encryptedRun_export [of True False] pos ar
    encryptedRun_gpg(2) [of True False] encryptedRun_gpg(3) [of True False]
  have b: "fst (CreateDump mockPackages (encryptedRun True False) background []) =
       Inl (External ''encryption failed'')
   \<and> uploads (snd (CreateDump mockPackages (encryptedRun True False) background [])) = []"
    by simp
  from CreateDump_uploads_encrypted [OF encryptedRun_gpg(1), where pk = mockPackages
      and f1 = True and e1 = True and ctx = background and w = "[]" and resp = ?resp
      and archivePath = "''/tmp/export.tar.gz''" and enc = "''/tmp/export.tar.gz.gpg''"
      and key = "''pubkey''"]
    encryptedRun_preflight [of True True] encryptedRun_export [of True True] pos ar
    encryptedRun_gpg(2) [of True True] encryptedRun_gpg(3) [of True True]
  have c: "archives (snd (CreateDump mockPackages (encryptedRun True True) background [])) =
       [''/tmp/export'']
   \<and> uploads (snd (CreateDump mockPackages (encryptedRun True True) background [])) =
       [''/tmp/export.tar.gz.gpg'']"
    by simp
  from a b c encryptedRun_gpg(1) show ?thesis by blast
qed

end
